theory Spec2Isabelle
  imports Complex_Main "HOL-Library.Multiset" "HOL-Library.Char_ord" "HOL-Library.List_Lexorder"
    "HOL-Library.Product_Lexorder"
begin

section \<open>Numbers, errors and dictionaries\<close>

text \<open>
  Python numbers (ratings, bonus counts, scores) are embedded as exact rationals, so the
  arithmetic below is exact. It is the arithmetic of the code wherever the floats involved
  are exact, as for ratings and sums that are binary fractions (6, 6.5, 6.25); a decimal
  that no double represents (6.35) and the value NaN are outside the model.
  \<open>round(x, 1)\<close> rounds to the nearest multiple of one tenth, a tie going to the even
  neighbour: \<open>round(6.25, 1)\<close> is 6.2 and \<open>round(6.75, 1)\<close> is 6.8.
\<close>

datatype error = ValueError | KeyError | FileNotFoundError

definition round_half_even :: "rat \<Rightarrow> int" where
  "round_half_even x =
     (let f = \<lfloor>x\<rfloor>; d = x - of_int f
      in if d < 1 / 2 then f
         else if 1 / 2 < d then f + 1
         else if even f then f else f + 1)"

definition py_round1 :: "rat \<Rightarrow> rat" where
  "py_round1 x = of_int (round_half_even (x * 10)) / 10"

text \<open>
  A Python \<open>dict\<close> whose values are iterated is an association list in insertion order:
  assigning to a key that is present replaces the value in place, assigning to a new key
  appends.
\<close>

fun dict_set :: "'k \<Rightarrow> 'v \<Rightarrow> ('k \<times> 'v) list \<Rightarrow> ('k \<times> 'v) list" where
  "dict_set k v [] = [(k, v)]"
| "dict_set k v (p # ps) = (if fst p = k then (k, v) # ps else p # dict_set k v ps)"

definition dict_get :: "('k \<times> 'v) list \<Rightarrow> 'k \<Rightarrow> 'v option" where
  "dict_get d k = map_of d k"

definition dict_keys :: "('k \<times> 'v) list \<Rightarrow> 'k list" where
  "dict_keys d = map fst d"

definition dict_values :: "('k \<times> 'v) list \<Rightarrow> 'v list" where
  "dict_values d = map snd d"

text \<open>\<open>sum(xs)\<close> adds from the left, starting at 0.\<close>

definition py_sum :: "rat list \<Rightarrow> rat" where
  "py_sum xs = foldl (+) 0 xs"

section \<open>Role, PlayerStats and Player (src/player.py)\<close>

datatype Role = GOALKEEPER | DEFENDER | MIDFIELDER | FORWARD

text \<open>
  Modelled from the spec: the enumeration \<open>Role\<close> (src/role.py) is a closed enumeration
  of the four canonical roles, constructed from a string; the canonical letters are the
  ones the loader's \<open>role_mapping\<close> produces. Any other string raises \<open>ValueError\<close>.
\<close>

definition Role_of_value :: "string \<Rightarrow> Role option" where
  "Role_of_value v =
     (if v = ''G'' then Some GOALKEEPER
      else if v = ''D'' then Some DEFENDER
      else if v = ''M'' then Some MIDFIELDER
      else if v = ''F'' then Some FORWARD
      else None)"

text \<open>
  Modelled from the spec: \<open>PlayerStats\<close> (src/playerstats.py) is the per-matchday
  snapshot of ten numeric fields, built by keyword in \<open>add_matchday_stats\<close>.
\<close>

record PlayerStats =
  rating :: rat
  gf :: rat
  gs :: rat
  rp :: rat
  rs :: rat
  rf :: rat
  au :: rat
  amm :: rat
  esp :: rat
  ass :: rat

record Player =
  cod :: int
  role :: Role
  name :: string
  real_team :: string
  matchday_stats :: "int \<rightharpoonup> PlayerStats"
  matchday_fantavoto :: "int \<rightharpoonup> rat"

definition Player_init :: "int \<Rightarrow> string \<Rightarrow> string \<Rightarrow> string \<Rightarrow> error + Player" where
  "Player_init c r n t =
     (case Role_of_value r of
        None \<Rightarrow> Inl ValueError
      | Some ro \<Rightarrow>
          Inr \<lparr>cod = c, role = ro, name = n, real_team = t,
               matchday_stats = Map.empty, matchday_fantavoto = Map.empty\<rparr>)"

text \<open>\<open>stats.get(key, 0)\<close> on the dictionary of one CSV row.\<close>

definition get_or_0 :: "(string \<rightharpoonup> rat) \<Rightarrow> string \<Rightarrow> rat" where
  "get_or_0 stats k = (case stats k of None \<Rightarrow> 0 | Some v \<Rightarrow> v)"

definition add_matchday_stats :: "int \<Rightarrow> (string \<rightharpoonup> rat) \<Rightarrow> Player \<Rightarrow> Player" where
  "add_matchday_stats matchday stats p =
     p\<lparr>matchday_stats := (matchday_stats p)(matchday \<mapsto>
          \<lparr>rating = get_or_0 stats ''Rating'',
           gf = get_or_0 stats ''Gf'',
           gs = get_or_0 stats ''Gs'',
           rp = get_or_0 stats ''Rp'',
           rs = get_or_0 stats ''Rs'',
           rf = get_or_0 stats ''Rf'',
           au = get_or_0 stats ''Au'',
           amm = get_or_0 stats ''Amm'',
           esp = get_or_0 stats ''Esp'',
           ass = get_or_0 stats ''Ass''\<rparr>)\<rparr>"

definition get_stats :: "Player \<Rightarrow> int \<Rightarrow> PlayerStats option" where
  "get_stats p matchday = matchday_stats p matchday"

definition calculate_fantavoto :: "Player \<Rightarrow> int \<Rightarrow> rat" where
  "calculate_fantavoto p matchday =
     (case get_stats p matchday of
        None \<Rightarrow> 0
      | Some stats \<Rightarrow>
          if rating stats = 0 then 0
          else
            let fantavoto = rating stats;
                fantavoto = fantavoto + gf stats * 3;
                fantavoto = fantavoto + ass stats * 1;
                fantavoto = fantavoto - rp stats * 3;
                fantavoto = fantavoto + rs stats * 3;
                fantavoto = fantavoto - amm stats * (1 / 2);
                fantavoto = fantavoto - esp stats * 1;
                fantavoto = fantavoto - au stats * 2;
                fantavoto = (if role p = GOALKEEPER \<and> gs stats = 0
                             then fantavoto + 1 else fantavoto);
                fantavoto = (if role p = GOALKEEPER
                             then fantavoto - gs stats * 1 else fantavoto)
            in py_round1 fantavoto)"

definition add_matchday_fantavoto :: "int \<Rightarrow> Player \<Rightarrow> Player" where
  "add_matchday_fantavoto matchday p =
     p\<lparr>matchday_fantavoto := (matchday_fantavoto p)(matchday \<mapsto> calculate_fantavoto p matchday)\<rparr>"

definition has_played :: "Player \<Rightarrow> int \<Rightarrow> bool" where
  "has_played p matchday =
     (case get_stats p matchday of None \<Rightarrow> False | Some stats \<Rightarrow> 0 < rating stats)"


definition load_matchday_row :: "int \<Rightarrow> (string \<rightharpoonup> rat) \<Rightarrow> Player \<Rightarrow> Player" where
  "load_matchday_row matchday_num data p =
     add_matchday_fantavoto matchday_num (add_matchday_stats matchday_num data p)"

definition load_rows :: "(int \<times> (string \<rightharpoonup> rat)) list \<Rightarrow> Player \<Rightarrow> Player" where
  "load_rows rows p = foldl (\<lambda>q (m, d). load_matchday_row m d q) p rows"

definition cache_consistent :: "Player \<Rightarrow> bool" where
  "cache_consistent p \<longleftrightarrow>
     (\<forall>m. matchday_fantavoto p m =
        (case matchday_stats p m of None \<Rightarrow> None | Some s \<Rightarrow> Some (calculate_fantavoto p m)))"

definition example_player :: Player where
  "example_player =
     \<lparr>cod = 1, role = FORWARD, name = ''x'', real_team = ''T'',
      matchday_stats = Map.empty, matchday_fantavoto = Map.empty\<rparr>"

definition example_goalkeeper :: Player where
  "example_goalkeeper =
     \<lparr>cod = 2, role = GOALKEEPER, name = ''y'', real_team = ''T'',
      matchday_stats = Map.empty, matchday_fantavoto = Map.empty\<rparr>"

definition example_row :: "string \<rightharpoonup> rat" where
  "example_row = [''Rating'' \<mapsto> 13 / 2, ''Gf'' \<mapsto> 1, ''Amm'' \<mapsto> 1]"

definition unplayed_row :: "string \<rightharpoonup> rat" where
  "unplayed_row = [''Rating'' \<mapsto> 0, ''Gf'' \<mapsto> 2, ''Ass'' \<mapsto> 1]"






section \<open>Team\<close>

text \<open>
  Modelled from the spec: the class \<open>Team\<close> (team.py) is a named roster, created from a
  list of player codes and populated with \<open>Player\<close> objects by \<open>add_player\<close>;
  \<open>calculate_total_score(matchday)\<close> is the sum of the fantavoto of that matchday over
  every rostered player, 0 for an empty roster.
\<close>

record Team =
  team_name :: string
  player_codes :: "int list"
  players :: "Player list"

definition Team_init :: "string \<Rightarrow> int list \<Rightarrow> Team" where
  "Team_init n codes = \<lparr>team_name = n, player_codes = codes, players = []\<rparr>"

definition add_player :: "Player \<Rightarrow> Team \<Rightarrow> Team" where
  "add_player p t = t\<lparr>players := players t @ [p]\<rparr>"

definition calculate_total_score :: "Team \<Rightarrow> int \<Rightarrow> rat" where
  "calculate_total_score t matchday =
     py_sum (map (\<lambda>p. calculate_fantavoto p matchday) (players t))"

section \<open>SeasonTable and Season (src/season.py)\<close>

record SeasonTable =
  team :: Team
  total_points :: rat
  matchday_scores :: "(int \<times> rat) list"
  matchdays_played :: nat

definition SeasonTable_init :: "Team \<Rightarrow> SeasonTable" where
  "SeasonTable_init t =
     \<lparr>team = t, total_points = 0, matchday_scores = [], matchdays_played = 0\<rparr>"

definition add_matchday_score :: "int \<Rightarrow> rat \<Rightarrow> SeasonTable \<Rightarrow> SeasonTable" where
  "add_matchday_score matchday score st =
     (let played = (if matchday \<notin> set (dict_keys (matchday_scores st))
                    then matchdays_played st + 1 else matchdays_played st);
          scores = dict_set matchday score (matchday_scores st)
      in st\<lparr>matchdays_played := played,
            matchday_scores := scores,
            total_points := py_sum (dict_values scores)\<rparr>)"

text \<open>A sequence of \<open>add_matchday_score\<close> calls on one table.\<close>

definition add_matchday_scores :: "(int \<times> rat) list \<Rightarrow> SeasonTable \<Rightarrow> SeasonTable" where
  "add_matchday_scores calls st = foldl (\<lambda>s (m, sc). add_matchday_score m sc s) st calls"

text \<open>
  The dictionary \<open>get_stats\<close> returns, and the same dictionary once
  \<open>get_season_table\<close> has added the key \<open>position\<close>.
\<close>

record team_stats =
  stats_team :: string
  stats_total_points :: rat
  stats_matchdays_played :: nat
  average_score :: rat
  best_score :: rat
  worst_score :: rat

record ranked_stats = team_stats +
  position :: nat

definition SeasonTable_get_stats :: "SeasonTable \<Rightarrow> team_stats" where
  "SeasonTable_get_stats st =
     (let avg_score = total_points st / of_nat (max (matchdays_played st) 1)
      in \<lparr>stats_team = team_name (team st),
          stats_total_points = py_round1 (total_points st),
          stats_matchdays_played = matchdays_played st,
          average_score = py_round1 avg_score,
          best_score = (case dict_values (matchday_scores st) of
                          [] \<Rightarrow> 0 | v # vs \<Rightarrow> foldl max v vs),
          worst_score = (case dict_values (matchday_scores st) of
                          [] \<Rightarrow> 0 | v # vs \<Rightarrow> foldl min v vs)\<rparr>)"

record Season =
  season_name :: string
  teams :: "Team list"
  table :: "(string \<times> SeasonTable) list"
  current_matchday :: int
  season_completed :: bool

definition Season_init :: "Team list \<Rightarrow> string \<Rightarrow> Season" where
  "Season_init ts n =
     \<lparr>season_name = n,
      teams = ts,
      table = foldl (\<lambda>tb t. dict_set (team_name t) (SeasonTable_init t) tb) [] ts,
      current_matchday = 1,
      season_completed = False\<rparr>"

text \<open>
  The loop of \<open>process_matchday\<close> over the teams. \<open>self.table[team.name]\<close> raises
  \<open>KeyError\<close> for a name that is not a key; what the loop had written by then stays.
\<close>

fun process_teams ::
  "int \<Rightarrow> Team list \<Rightarrow> (string \<times> rat) list \<Rightarrow> (string \<times> SeasonTable) list \<Rightarrow>
   (error + (string \<times> rat) list) \<times> (string \<times> SeasonTable) list" where
  "process_teams matchday [] scores tb = (Inr scores, tb)"
| "process_teams matchday (t # ts) scores tb =
     (let score = calculate_total_score t matchday;
          scores' = dict_set (team_name t) score scores
      in case dict_get tb (team_name t) of
           None \<Rightarrow> (Inl KeyError, tb)
         | Some st \<Rightarrow>
             process_teams matchday ts scores'
               (dict_set (team_name t) (add_matchday_score matchday score st) tb))"

definition process_matchday ::
  "int \<Rightarrow> Season \<Rightarrow> (error + (string \<times> rat) list) \<times> Season" where
  "process_matchday matchday s =
     (if matchday > 38 \<or> matchday < 1 then (Inl ValueError, s)
      else
        case process_teams matchday (teams s) [] (table s) of
          (Inl e, tb) \<Rightarrow> (Inl e, s\<lparr>table := tb\<rparr>)
        | (Inr scores, tb) \<Rightarrow>
            (Inr scores,
             s\<lparr>table := tb,
               current_matchday := (if matchday = current_matchday s
                                    then current_matchday s + 1 else current_matchday s)\<rparr>))"

text \<open>
  The state after a sequence of \<open>process_matchday\<close> calls on a season, in the order
  given; a call that raises leaves the state it had reached.
\<close>

definition process_matchdays :: "int list \<Rightarrow> Season \<Rightarrow> Season" where
  "process_matchdays ms s = foldl (\<lambda>q m. snd (process_matchday m q)) s ms"

definition get_season_table :: "Season \<Rightarrow> ranked_stats list" where
  "get_season_table s =
     (let table_data = map (\<lambda>entry. SeasonTable_get_stats (snd entry)) (table s);
          table_data = sort_key (\<lambda>x. - stats_total_points x) table_data
      in map (\<lambda>(i, team_data). team_stats.extend team_data (ranked_stats.fields (i + 1)))
           (enumerate 0 table_data))"

text \<open>\<open>max(xs, key=f)\<close> and \<open>min(xs, key=f)\<close> return the first extremal element.\<close>

definition py_max_by :: "('a \<Rightarrow> rat) \<Rightarrow> 'a \<Rightarrow> 'a list \<Rightarrow> 'a" where
  "py_max_by f x xs = foldl (\<lambda>b y. if f b < f y then y else b) x xs"

definition py_min_by :: "('a \<Rightarrow> rat) \<Rightarrow> 'a \<Rightarrow> 'a list \<Rightarrow> 'a" where
  "py_min_by f x xs = foldl (\<lambda>b y. if f y < f b then y else b) x xs"

record season_summary =
  summary_season_name :: string
  summary_teams :: nat
  total_matchdays_processed :: nat
  average_score_per_matchday :: rat
  final_table :: "ranked_stats list"
  champion :: "string option"
  champion_points :: rat
  highest_single_score :: rat
  highest_score_team :: string
  most_consistent_team :: string
  summary_season_completed :: bool

definition get_season_summary :: "Season \<Rightarrow> error + season_summary" where
  "get_season_summary s =
     (let final_table = get_season_table s;
          all_scores = concat (map (\<lambda>e. dict_values (matchday_scores (snd e))) (table s));
          total_matchdays = sum_list (map (\<lambda>e. matchdays_played (snd e)) (table s))
      in case final_table of
           [] \<Rightarrow> Inl ValueError  \<comment> \<open>\<open>max\<close> of an empty list raises\<close>
         | x # xs \<Rightarrow>
             let highest_score_team = py_max_by best_score x xs;
                 most_consistent_team = py_min_by (\<lambda>d. best_score d - worst_score d) x xs
             in Inr \<lparr>summary_season_name = season_name s,
                     summary_teams = length (teams s),
                     total_matchdays_processed = total_matchdays,
                     average_score_per_matchday =
                       (if all_scores \<noteq> []
                        then py_round1 (py_sum all_scores / of_nat (length all_scores)) else 0),
                     final_table = final_table,
                     champion = (case final_table of
                                   [] \<Rightarrow> None | y # ys \<Rightarrow> Some (stats_team y)),
                     champion_points = (case final_table of
                                          [] \<Rightarrow> 0 | y # ys \<Rightarrow> stats_total_points y),
                     highest_single_score = best_score highest_score_team,
                     highest_score_team = stats_team highest_score_team,
                     most_consistent_team = stats_team most_consistent_team,
                     summary_season_completed = season_completed s\<rparr>)"

text \<open>A small season: two teams, the first with one player who played matchday 1.\<close>

definition example_team_a :: Team where
  "example_team_a =
     add_player (load_matchday_row 1 example_row example_player) (Team_init ''A'' [1])"

definition example_team_b :: Team where
  "example_team_b = Team_init ''B'' []"

definition example_team_a2 :: Team where
  "example_team_a2 = Team_init ''A'' [2]"

definition example_season :: Season where
  "example_season = Season_init [example_team_a, example_team_b] ''s''"

section \<open>Invariants used in the proofs\<close>

text \<open>
  A season table built by the constructor and changed only by \<open>add_matchday_score\<close>
  has one entry per matchday, counts them, and carries their sum.
\<close>

definition table_inv :: "SeasonTable \<Rightarrow> bool" where
  "table_inv st \<longleftrightarrow>
     distinct (dict_keys (matchday_scores st)) \<and>
     matchdays_played st = length (matchday_scores st) \<and>
     total_points st = py_sum (dict_values (matchday_scores st))"

text \<open>
  A season built by the constructor has one table per team name, and
  \<open>process_matchday\<close> keeps the keys of \<open>table\<close>.
\<close>

definition season_wf :: "Season \<Rightarrow> bool" where
  "season_wf s \<longleftrightarrow>
     distinct (dict_keys (table s)) \<and>
     set (dict_keys (table s)) = set (map team_name (teams s))"

text \<open>The scores, in roster-list order, of the teams that carry one name.\<close>

definition named_scores :: "string \<Rightarrow> int \<Rightarrow> Team list \<Rightarrow> rat list" where
  "named_scores n matchday ts =
     map (\<lambda>t. calculate_total_score t matchday) (filter (\<lambda>t. team_name t = n) ts)"

text \<open>The numbering loop of \<open>get_season_table\<close>, started at any index.\<close>

definition number_rows :: "nat \<Rightarrow> team_stats list \<Rightarrow> ranked_stats list" where
  "number_rows n xs =
     map (\<lambda>(i, team_data). team_stats.extend team_data (ranked_stats.fields (i + 1)))
       (enumerate n xs)"

section \<open>Rows of a matchday CSV file\<close>

text \<open>
  One row of a matchday file, with the columns the converter writes: the four identifying
  columns and the ten numeric ones.
\<close>

record csv_row =
  csv_Team :: string
  csv_Cod :: int
  csv_Role :: string
  csv_Name :: string
  csv_Rating :: rat
  csv_Gf :: rat
  csv_Gs :: rat
  csv_Rp :: rat
  csv_Rs :: rat
  csv_Rf :: rat
  csv_Au :: rat
  csv_Amm :: rat
  csv_Esp :: rat
  csv_Ass :: rat

section \<open>Populating the rosters (src/loader.py)\<close>

definition role_mapping :: "(string \<times> string) list" where
  "role_mapping = [(''P'', ''G''), (''D'', ''D''), (''C'', ''M''), (''A'', ''F'')]"

text \<open>\<open>role_mapping.get(data['Role'], data['Role'])\<close>\<close>

definition role_mapping_get :: "string \<Rightarrow> string" where
  "role_mapping_get r = (case dict_get role_mapping r of None \<Rightarrow> r | Some v \<Rightarrow> v)"

text \<open>
  The loop of \<open>populate_teams_with_players\<close> over the codes of one team; a code without
  a row is reported and skipped, and an exception of the \<open>Player\<close> constructor leaves the
  function. The composition check after the loop only prints a warning.
\<close>

fun populate_team :: "(int \<rightharpoonup> csv_row) \<Rightarrow> int list \<Rightarrow> Team \<Rightarrow> error + Team" where
  "populate_team players_data [] t = Inr t"
| "populate_team players_data (c # cs) t =
     (case players_data c of
        None \<Rightarrow> populate_team players_data cs t
      | Some data \<Rightarrow>
          let role = role_mapping_get (csv_Role data)
          in case Player_init c role (csv_Name data) (csv_Team data) of
               Inl e \<Rightarrow> Inl e
             | Inr player \<Rightarrow> populate_team players_data cs (add_player player t))"

fun populate_teams_with_players ::
  "(int \<rightharpoonup> csv_row) \<Rightarrow> Team list \<Rightarrow> error + Team list" where
  "populate_teams_with_players players_data [] = Inr []"
| "populate_teams_with_players players_data (t # ts) =
     (case populate_team players_data (player_codes t) t of
        Inl e \<Rightarrow> Inl e
      | Inr t' \<Rightarrow>
          (case populate_teams_with_players players_data ts of
             Inl e \<Rightarrow> Inl e
           | Inr ts' \<Rightarrow> Inr (t' # ts')))"

text \<open>The rows of the rostered codes that have one, in roster order.\<close>

fun rostered_rows :: "(int \<rightharpoonup> csv_row) \<Rightarrow> int list \<Rightarrow> csv_row list" where
  "rostered_rows players_data [] = []"
| "rostered_rows players_data (c # cs) =
     (case players_data c of
        None \<Rightarrow> rostered_rows players_data cs
      | Some data \<Rightarrow> data # rostered_rows players_data cs)"

text \<open>The role a raw role letter ends as, when the constructor accepts it.\<close>

definition role_of_raw :: "string \<Rightarrow> Role option" where
  "role_of_raw r = Role_of_value (role_mapping_get r)"

definition example_raw_data :: "int \<rightharpoonup> csv_row" where
  "example_raw_data =
     [2 \<mapsto> \<lparr>csv_Team = ''T'', csv_Cod = 2, csv_Role = ''G'', csv_Name = ''y'',
             csv_Rating = 6, csv_Gf = 0, csv_Gs = 0, csv_Rp = 0, csv_Rs = 0, csv_Rf = 0,
             csv_Au = 0, csv_Amm = 0, csv_Esp = 0, csv_Ass = 0\<rparr>,
      3 \<mapsto> \<lparr>csv_Team = ''T'', csv_Cod = 3, csv_Role = ''X'', csv_Name = ''z'',
             csv_Rating = 6, csv_Gf = 0, csv_Gs = 0, csv_Rp = 0, csv_Rs = 0, csv_Rf = 0,
             csv_Au = 0, csv_Amm = 0, csv_Esp = 0, csv_Ass = 0\<rparr>]"

section \<open>Standardizing the player lists (src/data/matchdayprocessor.py)\<close>

text \<open>
  The CSV files are a store from paths to row lists; \<open>pd.read_csv\<close> raises for a path
  that cannot be read, and \<open>standardize_player_lists\<close> catches that per file. Writing a
  data frame and reading it again gives the same rows.
\<close>

type_synonym file_store = "string \<rightharpoonup> csv_row list"

type_synonym player_key = "string \<times> int \<times> string \<times> string"

record player_template =
  tpl_Team :: string
  tpl_Cod :: int
  tpl_Role :: string
  tpl_Name :: string

definition read_csv :: "file_store \<Rightarrow> string \<Rightarrow> error + csv_row list" where
  "read_csv fs path = (case fs path of None \<Rightarrow> Inl FileNotFoundError | Some rows \<Rightarrow> Inr rows)"

definition player_key :: "csv_row \<Rightarrow> player_key" where
  "player_key row = (csv_Team row, csv_Cod row, csv_Role row, csv_Name row)"

text \<open>Step 1, the rows of one file: a key not seen before gets its template.\<close>

fun collect_rows ::
  "csv_row list \<Rightarrow> (player_key \<times> player_template) list \<Rightarrow>
   (player_key \<times> player_template) list" where
  "collect_rows [] all_players = all_players"
| "collect_rows (row # rows) all_players =
     collect_rows rows
       (if player_key row \<notin> set (dict_keys all_players)
        then dict_set (player_key row)
               \<lparr>tpl_Team = csv_Team row, tpl_Cod = csv_Cod row,
                tpl_Role = csv_Role row, tpl_Name = csv_Name row\<rparr> all_players
        else all_players)"

text \<open>Step 1, the files: a file that cannot be read is logged and skipped.\<close>

fun collect_players ::
  "file_store \<Rightarrow> string list \<Rightarrow> (player_key \<times> player_template) list \<Rightarrow>
   (player_key \<times> player_template) list" where
  "collect_players fs [] all_players = all_players"
| "collect_players fs (csv_file # csv_files) all_players =
     (case read_csv fs csv_file of
        Inl e \<Rightarrow> collect_players fs csv_files all_players
      | Inr df \<Rightarrow> collect_players fs csv_files (collect_rows df all_players))"

text \<open>The template with all ten numeric fields set to 0.\<close>

definition missing_record :: "player_template \<Rightarrow> csv_row" where
  "missing_record player_template =
     \<lparr>csv_Team = tpl_Team player_template, csv_Cod = tpl_Cod player_template,
      csv_Role = tpl_Role player_template, csv_Name = tpl_Name player_template,
      csv_Rating = 0, csv_Gf = 0, csv_Gs = 0, csv_Rp = 0, csv_Rs = 0, csv_Rf = 0,
      csv_Au = 0, csv_Amm = 0, csv_Esp = 0, csv_Ass = 0\<rparr>"

definition missing_players ::
  "(player_key \<times> player_template) list \<Rightarrow> player_key set \<Rightarrow> csv_row list" where
  "missing_players all_players existing_players =
     map (\<lambda>item. missing_record (snd item))
       (filter (\<lambda>item. fst item \<notin> existing_players) all_players)"

text \<open>\<open>df.sort_values(['Team', 'Role', 'Name'])\<close>, strings compared character by character.\<close>

definition sort_columns :: "csv_row \<Rightarrow> string \<times> string \<times> string" where
  "sort_columns row = (csv_Team row, csv_Role row, csv_Name row)"

definition sort_values :: "csv_row list \<Rightarrow> csv_row list" where
  "sort_values df = sort_key sort_columns df"

text \<open>Step 2, the body of the loop for one data frame.\<close>

definition standardize_file ::
  "(player_key \<times> player_template) list \<Rightarrow> csv_row list \<Rightarrow> csv_row list" where
  "standardize_file all_players df =
     (let existing_players = set (map player_key df);
          missing = missing_players all_players existing_players;
          df = (if missing \<noteq> [] then df @ missing else df)
      in sort_values df)"

text \<open>
  Step 2, the files: a file that cannot be read is logged and listed as it is; the others
  are written back standardized.
\<close>

fun standardize_files ::
  "(player_key \<times> player_template) list \<Rightarrow> string list \<Rightarrow> file_store \<Rightarrow> string list \<Rightarrow>
   string list \<times> file_store" where
  "standardize_files all_players [] fs standardized_files = (standardized_files, fs)"
| "standardize_files all_players (csv_file # csv_files) fs standardized_files =
     (case read_csv fs csv_file of
        Inl e \<Rightarrow> standardize_files all_players csv_files fs (standardized_files @ [csv_file])
      | Inr df \<Rightarrow>
          standardize_files all_players csv_files
            (fs(csv_file \<mapsto> standardize_file all_players df))
            (standardized_files @ [csv_file]))"

definition standardize_player_lists ::
  "string list \<Rightarrow> file_store \<Rightarrow> string list \<times> file_store" where
  "standardize_player_lists csv_files fs =
     (if csv_files = [] then ([], fs)
      else
        let all_players = collect_players fs csv_files []
        in standardize_files all_players csv_files fs [])"

text \<open>The keys seen in the files of the list that can be read.\<close>

definition key_universe :: "file_store \<Rightarrow> string list \<Rightarrow> player_key set" where
  "key_universe fs csv_files =
     (\<Union>f\<in>set csv_files. case fs f of None \<Rightarrow> {} | Some df \<Rightarrow> set (map player_key df))"

text \<open>Every template stored under a key carries the fields of that key.\<close>

definition templates_ok :: "(player_key \<times> player_template) list \<Rightarrow> bool" where
  "templates_ok all_players \<longleftrightarrow>
     list_all (\<lambda>item. player_key (missing_record (snd item)) = fst item) all_players"

text \<open>Two matchday files: players x and y in the first, x and z in the second.\<close>

definition played_row :: "string \<Rightarrow> int \<Rightarrow> string \<Rightarrow> string \<Rightarrow> rat \<Rightarrow> csv_row" where
  "played_row t c r n v =
     \<lparr>csv_Team = t, csv_Cod = c, csv_Role = r, csv_Name = n,
      csv_Rating = v, csv_Gf = 1, csv_Gs = 0, csv_Rp = 0, csv_Rs = 0, csv_Rf = 0,
      csv_Au = 0, csv_Amm = 0, csv_Esp = 0, csv_Ass = 0\<rparr>"

definition example_files :: file_store where
  "example_files =
     [''matchday1.csv'' \<mapsto> [played_row ''T'' 1 ''A'' ''x'' 7, played_row ''T'' 2 ''P'' ''y'' 6],
      ''matchday2.csv'' \<mapsto> [played_row ''U'' 3 ''D'' ''z'' 6, played_row ''T'' 1 ''A'' ''x'' 5]]"

section \<open>The fantavoto\<close>

lemma round_half_even_of_int: "round_half_even (of_int n) = n"
  by (simp add: round_half_even_def)

lemma py_round1_of_int: "py_round1 (of_int n) = of_int n"
proof -
  have "(of_int n :: rat) * 10 = of_int (n * 10)" by simp
  then have "round_half_even (of_int n * 10) = n * 10"
    by (simp only: round_half_even_of_int)
  then show ?thesis by (simp add: py_round1_def)
qed

lemma py_round1_numeral: "py_round1 (numeral k) = numeral k"
  using py_round1_of_int [of "numeral k"] by simp


lemma calculate_fantavoto_cong:
  assumes r: "role q = role p" and s: "matchday_stats q m = matchday_stats p m"
  shows "calculate_fantavoto q m = calculate_fantavoto p m"
  unfolding calculate_fantavoto_def get_stats_def r s ..






text \<open>
  Claim C2. When no stats are stored for the matchday, or the stored rating is 0,
  \<open>calculate_fantavoto\<close> returns 0 whatever the other fields hold.
\<close>

theorem C2_rating_zero_scores_zero:
  "get_stats p m = None \<or> (\<exists>s. get_stats p m = Some s \<and> rating s = 0) \<Longrightarrow>
   calculate_fantavoto p m = 0"
  by (auto simp: calculate_fantavoto_def)

theorem C2_rating_zero_scores_zero_witness:
  "get_stats example_player 1 = None
   \<and> calculate_fantavoto example_player 1 = 0
   \<and> get_stats (add_matchday_stats 1 unplayed_row example_player) 1 =
       Some \<lparr>rating = 0, gf = 2, gs = 0, rp = 0, rs = 0, rf = 0,
              au = 0, amm = 0, esp = 0, ass = 1\<rparr>
   \<and> calculate_fantavoto (add_matchday_stats 1 unplayed_row example_player) 1 = 0"
  using C2_rating_zero_scores_zero [of example_player 1]
    C2_rating_zero_scores_zero [of "add_matchday_stats 1 unplayed_row example_player" 1]
  by (simp add: get_stats_def add_matchday_stats_def unplayed_row_def
      example_player_def get_or_0_def)

text \<open>
  Claim C4 as stated fails: \<open>add_matchday_stats\<close> alone stores the stats and leaves
  the fantavoto dictionary as it was.
\<close>

theorem C4_stats_without_fantavoto_counterexample:
  "matchday_stats (add_matchday_stats 1 example_row example_player) 1 \<noteq> None
   \<and> matchday_fantavoto (add_matchday_stats 1 example_row example_player) 1 = None"
  by (simp add: add_matchday_stats_def example_player_def)

lemma cache_consistent_init: "Player_init c r n t = Inr p \<Longrightarrow> cache_consistent p"
  by (auto simp: Player_init_def cache_consistent_def split: option.splits)

lemma cache_consistent_load:
  assumes "cache_consistent p"
  shows "cache_consistent (load_matchday_row m d p)"
proof -
  let ?p1 = "add_matchday_stats m d p"
  let ?p2 = "load_matchday_row m d p"
  have role2: "role ?p2 = role ?p1" and st2: "matchday_stats ?p2 = matchday_stats ?p1"
    by (simp_all add: load_matchday_row_def add_matchday_fantavoto_def)
  have c2: "calculate_fantavoto ?p2 k = calculate_fantavoto ?p1 k" for k
    by (rule calculate_fantavoto_cong) (simp_all add: role2 st2)
  have c1: "k \<noteq> m \<Longrightarrow> calculate_fantavoto ?p1 k = calculate_fantavoto p k" for k
    by (rule calculate_fantavoto_cong) (simp_all add: add_matchday_stats_def)
  have fv: "matchday_fantavoto ?p2 k =
      (if k = m then Some (calculate_fantavoto ?p1 m) else matchday_fantavoto p k)" for k
    by (simp add: load_matchday_row_def add_matchday_fantavoto_def add_matchday_stats_def)
  have st: "matchday_stats ?p1 k = (if k = m then matchday_stats ?p1 m else matchday_stats p k)"
    "matchday_stats ?p1 m \<noteq> None" for k
    by (simp_all add: add_matchday_stats_def)
  show ?thesis
    unfolding cache_consistent_def
  proof
    fix k
    show "matchday_fantavoto ?p2 k =
        (case matchday_stats ?p2 k of None \<Rightarrow> None | Some s \<Rightarrow> Some (calculate_fantavoto ?p2 k))"
    proof (cases "k = m")
      case True
      then show ?thesis
        using st(2) by (cases "matchday_stats ?p1 m") (simp_all add: fv st2 c2)
    next
      case False
      then have "matchday_stats ?p2 k = matchday_stats p k"
        using st(1) [of k] by (simp add: st2)
      moreover have "calculate_fantavoto ?p2 k = calculate_fantavoto p k"
        using False by (simp add: c2 c1)
      ultimately show ?thesis
        using assms False
        by (cases "matchday_stats p k") (simp_all add: fv cache_consistent_def)
    qed
  qed
qed

lemma cache_consistent_load_rows:
  "cache_consistent p \<Longrightarrow> cache_consistent (load_rows rows p)"
  unfolding load_rows_def
  by (induction rows arbitrary: p) (auto simp: cache_consistent_load)

text \<open>
  Claim C4, amended. For a player loaded the way the loader does it, each
  \<open>add_matchday_stats\<close> for a matchday followed at once by \<open>add_matchday_fantavoto\<close>
  for it, a fantavoto entry exists for a matchday exactly when a stats entry does, and it is
  \<open>calculate_fantavoto\<close> of the stats stored now, also after a matchday is loaded again.
\<close>

theorem C4_cache_follows_paired_loads:
  assumes "Player_init c r n t = Inr p0"
  shows "(matchday_fantavoto (load_rows rows p0) m \<noteq> None \<longleftrightarrow>
            matchday_stats (load_rows rows p0) m \<noteq> None)
     \<and> matchday_fantavoto (load_rows rows p0) m =
     (case matchday_stats (load_rows rows p0) m of
        None \<Rightarrow> None
      | Some s \<Rightarrow> Some (calculate_fantavoto (load_rows rows p0) m))"
  using cache_consistent_load_rows [OF cache_consistent_init [OF assms], of rows]
  by (cases "matchday_stats (load_rows rows p0) m") (simp_all add: cache_consistent_def)

theorem C4_cache_follows_paired_loads_witness:
  "Player_init 1 ''F'' ''x'' ''T'' = Inr example_player
   \<and> matchday_stats (load_rows [(1, example_row), (1, unplayed_row)] example_player) 1 \<noteq> None
   \<and> matchday_fantavoto (load_rows [(1, example_row), (1, unplayed_row)] example_player) 1 =
       Some 0
   \<and> matchday_fantavoto (load_rows [(1, example_row), (1, unplayed_row)] example_player) 2 =
       None"
proof -
  have init: "Player_init 1 ''F'' ''x'' ''T'' = Inr example_player"
    by (simp add: Player_init_def Role_of_value_def example_player_def)
  have st1: "matchday_stats (load_rows [(1, example_row), (1, unplayed_row)] example_player) 1 =
      Some \<lparr>rating = 0, gf = 2, gs = 0, rp = 0, rs = 0, rf = 0,
              au = 0, amm = 0, esp = 0, ass = 1\<rparr>"
    by (simp add: load_rows_def load_matchday_row_def add_matchday_fantavoto_def
        add_matchday_stats_def unplayed_row_def get_or_0_def)
  have st2: "matchday_stats (load_rows [(1, example_row), (1, unplayed_row)] example_player) 2 =
      None"
    by (simp add: load_rows_def load_matchday_row_def add_matchday_fantavoto_def
        add_matchday_stats_def example_player_def)
  have calc: "calculate_fantavoto
      (load_rows [(1, example_row), (1, unplayed_row)] example_player) 1 = 0"
    by (simp add: calculate_fantavoto_def get_stats_def st1)
  show ?thesis
    using C4_cache_follows_paired_loads [OF init, of "[(1, example_row), (1, unplayed_row)]" 1]
      C4_cache_follows_paired_loads [OF init, of "[(1, example_row), (1, unplayed_row)]" 2]
    by (simp add: init st1 st2 calc)
qed

section \<open>Dictionaries and the season table\<close>

lemma foldl_add_sum_list: "foldl (+) a xs = a + sum_list xs" for a :: rat
  by (induction xs arbitrary: a) (simp_all add: add.assoc)

lemma py_sum_sum_list: "py_sum xs = sum_list xs"
  by (simp add: py_sum_def foldl_add_sum_list)

lemma dict_keys_dict_set:
  "dict_keys (dict_set k v d) = (if k \<in> set (dict_keys d) then dict_keys d else dict_keys d @ [k])"
  by (induction d) (auto simp: dict_keys_def)

lemma dict_get_dict_set: "dict_get (dict_set k v d) = (dict_get d)(k \<mapsto> v)"
  by (induction d) (auto simp: dict_get_def fun_eq_iff)

lemma dict_get_Nil: "dict_get [] = Map.empty"
  by (simp add: dict_get_def fun_eq_iff)

lemma dict_get_None_iff: "dict_get d k = None \<longleftrightarrow> k \<notin> set (dict_keys d)"
  by (simp add: dict_get_def dict_keys_def map_of_eq_None_iff)

lemma distinct_dict_set:
  "distinct (dict_keys d) \<Longrightarrow> distinct (dict_keys (dict_set k v d))"
  by (simp add: dict_keys_dict_set)

lemma length_dict_set:
  "length (dict_set k v d) = (if k \<in> set (dict_keys d) then length d else length d + 1)"
  by (induction d) (auto simp: dict_keys_def)

lemma table_inv_init: "table_inv (SeasonTable_init t)"
  by (simp add: table_inv_def SeasonTable_init_def dict_keys_def dict_values_def py_sum_def)

lemma table_inv_add: "table_inv st \<Longrightarrow> table_inv (add_matchday_score m sc st)"
  by (simp add: table_inv_def add_matchday_score_def Let_def distinct_dict_set length_dict_set)

lemma matchday_scores_add:
  "dict_get (matchday_scores (add_matchday_score m sc st)) = (dict_get (matchday_scores st))(m \<mapsto> sc)"
  by (simp add: add_matchday_score_def Let_def dict_get_dict_set)

lemma team_add [simp]: "team (add_matchday_score m sc st) = team st"
  by (simp add: add_matchday_score_def Let_def)

lemma table_inv_adds: "table_inv st \<Longrightarrow> table_inv (add_matchday_scores calls st)"
  unfolding add_matchday_scores_def
  by (induction calls arbitrary: st) (auto simp: table_inv_add)

lemma matchday_scores_adds:
  "dict_get (matchday_scores (add_matchday_scores calls st)) =
     dict_get (matchday_scores st) ++ map_of (rev calls)"
  unfolding add_matchday_scores_def
proof (induction calls arbitrary: st)
  case Nil
  then show ?case by simp
next
  case (Cons c calls)
  obtain m sc where c: "c = (m, sc)" by (cases c)
  show ?case
    by (simp add: c Cons.IH matchday_scores_add map_add_upd_left fun_eq_iff map_add_def
        split: option.splits)
qed

text \<open>
  Claim C3. After any sequence of \<open>add_matchday_score\<close> calls on a new table,
  \<open>total_points\<close> is the sum of the scores now in \<open>matchday_scores\<close>, the score kept
  for a matchday is the one added last, and \<open>matchdays_played\<close> is the number of distinct
  matchdays. Adding 5 and then 7 for one matchday gives the total 7 and one matchday played.
\<close>

theorem C3_total_is_sum_of_recorded_scores:
  "total_points (add_matchday_scores calls (SeasonTable_init t)) =
     py_sum (dict_values (matchday_scores (add_matchday_scores calls (SeasonTable_init t))))
   \<and> total_points (add_matchday_scores calls (SeasonTable_init t)) =
     sum_list (dict_values (matchday_scores (add_matchday_scores calls (SeasonTable_init t))))
   \<and> distinct (dict_keys (matchday_scores (add_matchday_scores calls (SeasonTable_init t))))
   \<and> set (dict_keys (matchday_scores (add_matchday_scores calls (SeasonTable_init t)))) =
     set (map fst calls)
   \<and> dict_get (matchday_scores (add_matchday_scores calls (SeasonTable_init t))) =
     map_of (rev calls)
   \<and> matchdays_played (add_matchday_scores calls (SeasonTable_init t)) =
     card (set (dict_keys (matchday_scores (add_matchday_scores calls (SeasonTable_init t)))))
   \<and> matchdays_played (add_matchday_scores calls (SeasonTable_init t)) =
     card (set (map fst calls))
   \<and> total_points (add_matchday_scores [(m, 5), (m, 7)] (SeasonTable_init t)) = 7
   \<and> matchdays_played (add_matchday_scores [(m, 5), (m, 7)] (SeasonTable_init t)) = 1"
proof -
  let ?st = "add_matchday_scores calls (SeasonTable_init t)"
  have inv: "table_inv ?st"
    by (rule table_inv_adds) (rule table_inv_init)
  have get: "dict_get (matchday_scores ?st) = map_of (rev calls)"
    by (simp add: matchday_scores_adds SeasonTable_init_def dict_get_Nil)
  have "k \<in> set (dict_keys (matchday_scores ?st)) \<longleftrightarrow> k \<in> set (map fst calls)" for k
  proof -
    have "k \<in> set (dict_keys (matchday_scores ?st)) \<longleftrightarrow> map_of (rev calls) k \<noteq> None"
      using dict_get_None_iff [of "matchday_scores ?st" k] by (simp add: get)
    also have "\<dots> \<longleftrightarrow> k \<in> set (map fst calls)"
      by (simp add: map_of_eq_None_iff)
    finally show ?thesis .
  qed
  then have keys: "set (dict_keys (matchday_scores ?st)) = set (map fst calls)"
    by blast
  have dist: "distinct (dict_keys (matchday_scores ?st))"
    using inv by (simp add: table_inv_def)
  have played: "matchdays_played ?st = card (set (dict_keys (matchday_scores ?st)))"
    using inv distinct_card [OF dist] by (simp add: table_inv_def dict_keys_def)
  have total: "total_points ?st = py_sum (dict_values (matchday_scores ?st))"
    using inv by (simp add: table_inv_def)
  have ex1: "total_points (add_matchday_scores [(m, 5), (m, 7)] (SeasonTable_init t)) = 7"
    by (simp add: add_matchday_scores_def add_matchday_score_def SeasonTable_init_def
        dict_keys_def dict_values_def py_sum_def)
  have ex2: "matchdays_played (add_matchday_scores [(m, 5), (m, 7)] (SeasonTable_init t)) = 1"
    by (simp add: add_matchday_scores_def add_matchday_score_def SeasonTable_init_def
        dict_keys_def dict_values_def py_sum_def)
  show ?thesis
    using total get keys dist played ex1 ex2 by (simp add: py_sum_sum_list)
qed

section \<open>Processing a matchday\<close>

lemma dict_get_Some_key: "dict_get d k = Some v \<Longrightarrow> k \<in> set (dict_keys d)"
  using dict_get_None_iff [of d k] by auto

lemma dict_keys_dict_set_present:
  "k \<in> set (dict_keys d) \<Longrightarrow> dict_keys (dict_set k v d) = dict_keys d"
  by (simp add: dict_keys_dict_set)

lemma set_dict_keys_dict_set: "set (dict_keys (dict_set k v d)) = insert k (set (dict_keys d))"
  by (auto simp: dict_keys_dict_set)

lemma init_table_keys:
  "set (dict_keys (foldl (\<lambda>tb t. dict_set (team_name t) (SeasonTable_init t) tb) acc ts)) =
     set (dict_keys acc) \<union> set (map team_name ts)
   \<and> (distinct (dict_keys acc) \<longrightarrow>
        distinct (dict_keys (foldl (\<lambda>tb t. dict_set (team_name t) (SeasonTable_init t) tb) acc ts)))"
proof (induction ts arbitrary: acc)
  case Nil
  then show ?case by simp
next
  case (Cons t ts)
  show ?case
    using Cons.IH [of "dict_set (team_name t) (SeasonTable_init t) acc"]
    by (auto simp: set_dict_keys_dict_set distinct_dict_set)
qed

lemma season_wf_init: "season_wf (Season_init ts n)"
  using init_table_keys [of "[]" ts]
  by (simp add: season_wf_def Season_init_def dict_keys_def)

lemma process_teams_keys: "dict_keys (snd (process_teams m ts sc tb)) = dict_keys tb"
proof (induction ts arbitrary: sc tb)
  case Nil
  then show ?case by simp
next
  case (Cons t ts)
  show ?case
  proof (cases "dict_get tb (team_name t)")
    case None
    then show ?thesis by (simp add: Let_def)
  next
    case (Some st)
    then show ?thesis
      by (simp add: Let_def Cons.IH dict_keys_dict_set_present dict_get_Some_key)
  qed
qed

lemma process_teams_scores:
  "\<forall>t\<in>set ts. team_name t \<in> set (dict_keys tb) \<Longrightarrow>
   fst (process_teams m ts sc tb) =
     Inr (foldl (\<lambda>a t. dict_set (team_name t) (calculate_total_score t m) a) sc ts)"
proof (induction ts arbitrary: sc tb)
  case Nil
  then show ?case by simp
next
  case (Cons t ts)
  from Cons.prems have "team_name t \<in> set (dict_keys tb)" by simp
  then obtain st where st: "dict_get tb (team_name t) = Some st"
    using dict_get_None_iff [of tb "team_name t"] by auto
  let ?tb = "dict_set (team_name t) (add_matchday_score m (calculate_total_score t m) st) tb"
  have "\<forall>u\<in>set ts. team_name u \<in> set (dict_keys ?tb)"
    using Cons.prems by (simp add: set_dict_keys_dict_set)
  from Cons.IH [OF this] show ?case
    by (simp add: Let_def st)
qed

lemma process_teams_Cons:
  "dict_get tb (team_name t) = Some st \<Longrightarrow>
   process_teams m (t # ts) sc tb =
     process_teams m ts (dict_set (team_name t) (calculate_total_score t m) sc)
       (dict_set (team_name t) (add_matchday_score m (calculate_total_score t m) st) tb)"
  by (simp add: Let_def)

lemma add_matchday_scores_Cons:
  "add_matchday_scores ((m, v) # calls) st = add_matchday_scores calls (add_matchday_score m v st)"
  by (simp add: add_matchday_scores_def)

lemma process_teams_table:
  "\<forall>t\<in>set ts. team_name t \<in> set (dict_keys tb) \<Longrightarrow>
   dict_get (snd (process_teams m ts sc tb)) n =
     map_option (add_matchday_scores (map (Pair m) (named_scores n m ts))) (dict_get tb n)"
proof (induction ts arbitrary: sc tb)
  case Nil
  show ?case
    by (cases "dict_get tb n") (simp_all add: named_scores_def add_matchday_scores_def)
next
  case (Cons t ts)
  from Cons.prems have "team_name t \<in> set (dict_keys tb)" by simp
  then obtain st where st: "dict_get tb (team_name t) = Some st"
    using dict_get_None_iff [of tb "team_name t"] by auto
  let ?v = "calculate_total_score t m"
  let ?tb = "dict_set (team_name t) (add_matchday_score m ?v st) tb"
  have "\<forall>u\<in>set ts. team_name u \<in> set (dict_keys ?tb)"
    using Cons.prems by (simp add: set_dict_keys_dict_set)
  from Cons.IH [OF this]
  have step: "dict_get (snd (process_teams m (t # ts) sc tb)) n =
      map_option (add_matchday_scores (map (Pair m) (named_scores n m ts))) (dict_get ?tb n)"
    by (simp only: process_teams_Cons [OF st])
  show ?case
  proof (cases "team_name t = n")
    case True
    have "named_scores n m (t # ts) = ?v # named_scores n m ts"
      using True by (simp add: named_scores_def)
    moreover have "dict_get ?tb n = Some (add_matchday_score m ?v st)"
      using True by (simp add: dict_get_dict_set)
    moreover have "dict_get tb n = Some st"
      using True st by simp
    ultimately show ?thesis
      by (simp add: step add_matchday_scores_Cons del: process_teams.simps)
  next
    case False
    have "named_scores n m (t # ts) = named_scores n m ts"
      using False by (simp add: named_scores_def)
    moreover have "dict_get ?tb n = dict_get tb n"
      using False by (simp add: dict_get_dict_set)
    ultimately show ?thesis
      by (simp add: step del: process_teams.simps)
  qed
qed

lemma scores_fold_get:
  "dict_get (foldl (\<lambda>a t. dict_set (team_name t) (calculate_total_score t m) a) sc ts) n =
     (if named_scores n m ts = [] then dict_get sc n else Some (last (named_scores n m ts)))"
proof (induction ts arbitrary: sc)
  case Nil
  then show ?case by (simp add: named_scores_def)
next
  case (Cons t ts)
  show ?case
    by (simp add: Cons.IH dict_get_dict_set named_scores_def)
qed

lemma map_of_rev_same_key:
  "vs \<noteq> [] \<Longrightarrow> map_of (rev (map (Pair m) vs)) m = Some (last vs)"
  by (induction vs rule: rev_induct) simp_all

lemma add_matchday_scores_same_day:
  "vs \<noteq> [] \<Longrightarrow>
   dict_get (matchday_scores (add_matchday_scores (map (Pair m) vs) st)) m = Some (last vs)"
  using map_of_rev_same_key [of vs m]
  by (simp add: matchday_scores_adds map_add_def)

lemma add_matchday_scores_other_day:
  "k \<noteq> m \<Longrightarrow>
   dict_get (matchday_scores (add_matchday_scores (map (Pair m) vs) st)) k =
     dict_get (matchday_scores st) k"
proof -
  assume "k \<noteq> m"
  then have "map_of (rev (map (Pair m) vs)) k = None"
    by (auto simp: map_of_eq_None_iff)
  then show ?thesis
    by (simp add: matchday_scores_adds map_add_def)
qed

lemma process_matchday_in_range:
  assumes wf: "season_wf s" and rng: "1 \<le> n" "n \<le> 38"
  shows "process_matchday n s =
     (Inr (foldl (\<lambda>a t. dict_set (team_name t) (calculate_total_score t n) a) [] (teams s)),
      s\<lparr>table := snd (process_teams n (teams s) [] (table s)),
        current_matchday := (if n = current_matchday s
                             then current_matchday s + 1 else current_matchday s)\<rparr>)"
proof -
  have keys: "\<forall>t\<in>set (teams s). team_name t \<in> set (dict_keys (table s))"
    using wf by (simp add: season_wf_def)
  obtain r tb where pt: "process_teams n (teams s) [] (table s) = (r, tb)"
    by (cases "process_teams n (teams s) [] (table s)")
  have r: "r = Inr (foldl (\<lambda>a t. dict_set (team_name t) (calculate_total_score t n) a) [] (teams s))"
    using process_teams_scores [OF keys, of n "[]"] by (simp add: pt)
  show ?thesis
    using rng by (simp add: process_matchday_def pt r)
qed

lemma process_matchday_teams: "teams (snd (process_matchday n s)) = teams s"
  by (simp add: process_matchday_def split: prod.splits sum.splits)

lemma process_matchday_keys:
  "dict_keys (table (snd (process_matchday n s))) = dict_keys (table s)"
proof -
  have "dict_keys (snd (process_teams n (teams s) [] (table s))) = dict_keys (table s)"
    by (rule process_teams_keys)
  then show ?thesis
    by (auto simp: process_matchday_def split: prod.splits sum.splits)
qed

lemma season_wf_process_matchday: "season_wf s \<Longrightarrow> season_wf (snd (process_matchday n s))"
  by (simp add: season_wf_def process_matchday_teams process_matchday_keys)

lemma process_matchdays_teams: "teams (process_matchdays ms s) = teams s"
  unfolding process_matchdays_def
  by (induction ms arbitrary: s) (simp_all add: process_matchday_teams)

lemma process_matchdays_keys: "dict_keys (table (process_matchdays ms s)) = dict_keys (table s)"
  unfolding process_matchdays_def
  by (induction ms arbitrary: s) (simp_all add: process_matchday_keys)

lemma season_wf_process_matchdays: "season_wf s \<Longrightarrow> season_wf (process_matchdays ms s)"
  by (simp add: season_wf_def process_matchdays_teams process_matchdays_keys)

lemma season_wf_reachable: "season_wf (process_matchdays ms (Season_init ts nm))"
  by (rule season_wf_process_matchdays) (rule season_wf_init)

lemma teams_reachable: "teams (process_matchdays ms (Season_init ts nm)) = ts"
  by (simp add: process_matchdays_teams Season_init_def)

lemma filter_distinct_key:
  "distinct (map f xs) \<Longrightarrow> x \<in> set xs \<Longrightarrow> filter (\<lambda>u. f u = f x) xs = [x]"
proof (induction xs)
  case Nil
  then show ?case by simp
next
  case (Cons u us)
  show ?case
  proof (cases "u = x")
    case True
    then have "\<forall>w\<in>set us. f w \<noteq> f x"
      using Cons.prems(1) by (auto simp: image_iff)
    then have "filter (\<lambda>u. f u = f x) us = []"
      by (simp add: filter_empty_conv)
    then show ?thesis using True by simp
  next
    case False
    then have x: "x \<in> set us" using Cons.prems(2) by simp
    then have "f u \<noteq> f x" using Cons.prems(1) by (auto simp: image_iff)
    then show ?thesis using Cons.IH x Cons.prems(1) by simp
  qed
qed

text \<open>
  Claim C5. \<open>process_matchday(n)\<close> with n below 1 or above 38 raises \<open>ValueError\<close>
  and the season, every team's \<open>SeasonTable\<close> included, is as it was before the call.
\<close>

theorem C5_out_of_range_matchday_rejected:
  "n < 1 \<or> 38 < n \<Longrightarrow> process_matchday n s = (Inl ValueError, s)"
  by (auto simp: process_matchday_def)

text \<open>
  Claim C8. On a season built by the constructor and any earlier \<open>process_matchday\<close>
  calls, \<open>process_matchday(n)\<close> with n from 1 to 38 returns normally, leaves in every
  team's table a score for matchday n (the score of the team, or of the last team of that
  name), keeps the scores of all other matchdays, and moves \<open>current_matchday\<close> forward by
  one exactly when n is equal to it; otherwise the pointer stays.
\<close>

theorem C8_pointer_advances_only_in_order:
  assumes s: "s = process_matchdays ms (Season_init ts nm)" and rng: "1 \<le> n" "n \<le> 38"
  shows "\<exists>scores s'.
     process_matchday n s = (Inr scores, s')
     \<and> current_matchday s' =
         (if n = current_matchday s then current_matchday s + 1 else current_matchday s)
     \<and> teams s' = teams s
     \<and> dict_keys (table s') = dict_keys (table s)
     \<and> (\<forall>t\<in>set (teams s). \<exists>st v.
           dict_get (table s') (team_name t) = Some st
           \<and> dict_get (matchday_scores st) n = Some v
           \<and> dict_get scores (team_name t) = Some v
           \<and> v = last (named_scores (team_name t) n (teams s))
           \<and> (distinct (map team_name (teams s)) \<longrightarrow> v = calculate_total_score t n))
     \<and> (\<forall>k st. dict_get (table s) k = Some st \<longrightarrow>
           (\<exists>st'. dict_get (table s') k = Some st'
              \<and> (\<forall>m. m \<noteq> n \<longrightarrow>
                    dict_get (matchday_scores st') m = dict_get (matchday_scores st) m)))"
proof -
  have wf: "season_wf s"
    unfolding s by (rule season_wf_reachable)
  have keys: "\<forall>t\<in>set (teams s). team_name t \<in> set (dict_keys (table s))"
    using wf by (simp add: season_wf_def)
  let ?scores = "foldl (\<lambda>a t. dict_set (team_name t) (calculate_total_score t n) a) [] (teams s)"
  let ?tb = "snd (process_teams n (teams s) [] (table s))"
  let ?s' = "s\<lparr>table := ?tb,
        current_matchday := (if n = current_matchday s
                             then current_matchday s + 1 else current_matchday s)\<rparr>"
  have run: "process_matchday n s = (Inr ?scores, ?s')"
    by (rule process_matchday_in_range [OF wf rng])
  have tb: "dict_get ?tb k =
      map_option (add_matchday_scores (map (Pair n) (named_scores k n (teams s))))
        (dict_get (table s) k)" for k
    by (rule process_teams_table [OF keys])
  have every: "\<exists>st v.
           dict_get (table ?s') (team_name t) = Some st
           \<and> dict_get (matchday_scores st) n = Some v
           \<and> dict_get ?scores (team_name t) = Some v
           \<and> v = last (named_scores (team_name t) n (teams s))
           \<and> (distinct (map team_name (teams s)) \<longrightarrow> v = calculate_total_score t n)"
    if t: "t \<in> set (teams s)" for t
  proof -
    let ?vs = "named_scores (team_name t) n (teams s)"
    have ne: "?vs \<noteq> []"
      using t by (auto simp: named_scores_def filter_empty_conv)
    from keys t obtain st0 where st0: "dict_get (table s) (team_name t) = Some st0"
      using dict_get_None_iff [of "table s" "team_name t"] by auto
    have 1: "dict_get (table ?s') (team_name t) =
        Some (add_matchday_scores (map (Pair n) ?vs) st0)"
      by (simp add: tb st0)
    have 2: "dict_get (matchday_scores (add_matchday_scores (map (Pair n) ?vs) st0)) n =
        Some (last ?vs)"
      by (rule add_matchday_scores_same_day [OF ne])
    have 3: "dict_get ?scores (team_name t) = Some (last ?vs)"
      using ne by (simp add: scores_fold_get dict_get_Nil)
    have 4: "last ?vs = calculate_total_score t n" if d: "distinct (map team_name (teams s))"
    proof -
      have "filter (\<lambda>u. team_name u = team_name t) (teams s) = [t]"
        using d t by (rule filter_distinct_key)
      then show ?thesis by (simp add: named_scores_def)
    qed
    show ?thesis using 1 2 3 4 by blast
  qed
  have kept: "\<exists>st'. dict_get (table ?s') k = Some st'
              \<and> (\<forall>m. m \<noteq> n \<longrightarrow>
                    dict_get (matchday_scores st') m = dict_get (matchday_scores st) m)"
    if "dict_get (table s) k = Some st" for k st
    using that by (simp add: tb add_matchday_scores_other_day)
  have keys': "dict_keys (table ?s') = dict_keys (table s)"
    by (simp add: process_teams_keys)
  show ?thesis
    using run every kept keys' by (intro exI [of _ ?scores] exI [of _ ?s']) simp
qed

lemma example_team_names:
  "team_name example_team_a = ''A''" "team_name example_team_b = ''B''"
  "team_name example_team_a2 = ''A''"
  by (simp_all add: example_team_a_def example_team_b_def example_team_a2_def Team_init_def
      add_player_def)

lemma example_team_b_score: "calculate_total_score example_team_b n = 0"
  by (simp add: calculate_total_score_def example_team_b_def Team_init_def py_sum_def)

lemma example_team_a2_score: "calculate_total_score example_team_a2 n = 0"
  by (simp add: calculate_total_score_def example_team_a2_def Team_init_def py_sum_def)

lemma example_team_a_score:
  "calculate_total_score example_team_a n = (if n = 1 then 9 else 0)"
proof -
  let ?p = "load_matchday_row 1 example_row example_player"
  have st: "matchday_stats ?p n =
      (if n = 1 then Some \<lparr>rating = 13 / 2, gf = 1, gs = 0, rp = 0, rs = 0, rf = 0,
            au = 0, amm = 1, esp = 0, ass = 0\<rparr> else None)"
    by (simp add: load_matchday_row_def add_matchday_fantavoto_def add_matchday_stats_def
        example_row_def example_player_def get_or_0_def)
  have ro: "role ?p = FORWARD"
    by (simp add: load_matchday_row_def add_matchday_fantavoto_def add_matchday_stats_def
        example_player_def)
  have "calculate_fantavoto ?p n = (if n = 1 then 9 else 0)"
    by (simp add: calculate_fantavoto_def get_stats_def st ro Let_def py_round1_numeral)
  then show ?thesis
    by (simp add: calculate_total_score_def example_team_a_def Team_init_def add_player_def
        py_sum_def)
qed

lemma example_season_fields:
  "teams example_season = [example_team_a, example_team_b]"
  "current_matchday example_season = 1"
  "table example_season =
     [(''A'', SeasonTable_init example_team_a), (''B'', SeasonTable_init example_team_b)]"
  by (simp_all add: example_season_def Season_init_def example_team_names)

lemma example_season_after_1:
  "current_matchday (process_matchdays [1] example_season) = 2"
  by (simp add: process_matchdays_def example_season_fields
      process_matchday_in_range [OF season_wf_init [of "[example_team_a, example_team_b]" "''s''",
          folded example_season_def]])

theorem C5_out_of_range_matchday_rejected_witness:
  "process_matchday 0 example_season = (Inl ValueError, example_season)
   \<and> process_matchday 39 example_season = (Inl ValueError, example_season)"
  using C5_out_of_range_matchday_rejected [of 0 example_season]
    C5_out_of_range_matchday_rejected [of 39 example_season]
  by simp

theorem C8_pointer_advances_only_in_order_witness:
  "current_matchday (process_matchdays [1] example_season) = 2
   \<and> fst (process_matchday 3 (process_matchdays [1] example_season)) \<noteq> Inl ValueError
   \<and> fst (process_matchday 3 (process_matchdays [1] example_season)) \<noteq> Inl KeyError
   \<and> current_matchday (snd (process_matchday 3 (process_matchdays [1] example_season))) = 2
   \<and> current_matchday (snd (process_matchday 2 (process_matchdays [1] example_season))) = 3"
proof -
  let ?s = "process_matchdays [1] example_season"
  have s: "?s = process_matchdays [1] (Season_init [example_team_a, example_team_b] ''s'')"
    by (simp add: example_season_def)
  have r3: "(1::int) \<le> 3" "(3::int) \<le> 38" and r2: "(1::int) \<le> 2" "(2::int) \<le> 38"
    by simp_all
  from C8_pointer_advances_only_in_order [OF s r3]
  obtain sc3 s3 where 3: "process_matchday 3 ?s = (Inr sc3, s3)"
    "current_matchday s3 =
       (if 3 = current_matchday ?s then current_matchday ?s + 1 else current_matchday ?s)"
    by blast
  from C8_pointer_advances_only_in_order [OF s r2]
  obtain sc2 s2 where 2: "process_matchday 2 ?s = (Inr sc2, s2)"
    "current_matchday s2 =
       (if 2 = current_matchday ?s then current_matchday ?s + 1 else current_matchday ?s)"
    by blast
  show ?thesis
    using 2 3 by (simp add: example_season_after_1)
qed

section \<open>The ranked table\<close>

lemma position_extend:
  "position (team_stats.extend d (ranked_stats.fields p)) = p"
  by (simp add: team_stats.extend_def ranked_stats.fields_def team_stats.defs ranked_stats.defs)

lemma truncate_extend:
  "team_stats.truncate (team_stats.extend d (ranked_stats.fields p)) = d"
  by (simp add: team_stats.extend_def ranked_stats.fields_def team_stats.truncate_def)

lemma fields_extend:
  "stats_total_points (team_stats.extend d (ranked_stats.fields p)) = stats_total_points d"
  "best_score (team_stats.extend d (ranked_stats.fields p)) = best_score d"
  "stats_team (team_stats.extend d (ranked_stats.fields p)) = stats_team d"
  by (simp_all add: team_stats.extend_def ranked_stats.fields_def)

lemma number_rows_Nil: "number_rows n [] = []"
  by (simp add: number_rows_def)

lemma number_rows_Cons:
  "number_rows n (x # xs) =
     team_stats.extend x (ranked_stats.fields (n + 1)) # number_rows (Suc n) xs"
  by (simp add: number_rows_def)

lemma length_number_rows: "length (number_rows n xs) = length xs"
  by (simp add: number_rows_def)

lemma position_number_rows: "map position (number_rows n xs) = map Suc [n..<n + length xs]"
proof (induction xs arbitrary: n)
  case Nil
  then show ?case by (simp add: number_rows_Nil)
next
  case (Cons x xs)
  have "[n..<n + length (x # xs)] = n # [Suc n..<Suc n + length xs]"
    by (subst upt_rec) simp
  then show ?case
    by (simp add: number_rows_Cons position_extend Cons.IH)
qed

lemma truncate_number_rows: "map team_stats.truncate (number_rows n xs) = xs"
  by (induction xs arbitrary: n) (simp_all add: number_rows_Nil number_rows_Cons truncate_extend)

lemma total_points_number_rows:
  "map stats_total_points (number_rows n xs) = map stats_total_points xs"
  by (induction xs arbitrary: n) (simp_all add: number_rows_Nil number_rows_Cons fields_extend)

lemma best_score_number_rows: "map best_score (number_rows n xs) = map best_score xs"
  by (induction xs arbitrary: n) (simp_all add: number_rows_Nil number_rows_Cons fields_extend)

lemma get_season_table_number_rows:
  "get_season_table s =
     number_rows 0 (sort_key (\<lambda>x. - stats_total_points x)
       (map (\<lambda>entry. SeasonTable_get_stats (snd entry)) (table s)))"
  by (simp add: get_season_table_def number_rows_def Let_def)

lemma length_get_season_table: "length (get_season_table s) = length (table s)"
  by (simp add: get_season_table_number_rows length_number_rows)

lemma sorted_desc_sort_key:
  "sorted_wrt (\<ge>) (map stats_total_points (sort_key (\<lambda>x. - stats_total_points x) xs))"
proof -
  have "sorted (map (\<lambda>x. - stats_total_points x) (sort_key (\<lambda>x. - stats_total_points x) xs))"
    by (rule sorted_sort_key)
  then show ?thesis
    by (simp add: sorted_wrt_map)
qed

lemma season_wf_length:
  assumes wf: "season_wf s"
  shows "length (table s) = card (set (map team_name (teams s)))"
proof -
  from wf have d: "distinct (dict_keys (table s))"
    and e: "set (dict_keys (table s)) = set (map team_name (teams s))"
    by (simp_all add: season_wf_def)
  have "length (table s) = length (dict_keys (table s))"
    by (simp add: dict_keys_def)
  also have "\<dots> = card (set (dict_keys (table s)))"
    using distinct_card [OF d] by simp
  finally show ?thesis
    by (simp only: e)
qed

text \<open>
  Claim C6. A team is identified by its name, unique within a season. For a season of N
  teams with pairwise distinct names, built by the constructor and any \<open>process_matchday\<close>
  calls, \<open>get_season_table\<close> returns N rows whose positions are exactly 1, 2, ..., N, in
  descending order of \<open>total_points\<close>; the rows are the rows of \<open>get_stats\<close> of the
  tables, and rows of equal \<open>total_points\<close> keep the order the tables have in the season:
  the sort is stable and has no second key.
\<close>

theorem C6_table_sorted_and_numbered:
  assumes s: "s = process_matchdays ms (Season_init ts nm)"
    and d: "distinct (map team_name ts)"
  shows "length (get_season_table s) = length ts
     \<and> map position (get_season_table s) = [1..<Suc (length ts)]
     \<and> sorted_wrt (\<ge>) (map stats_total_points (get_season_table s))
     \<and> mset (map team_stats.truncate (get_season_table s)) =
         mset (map (\<lambda>entry. SeasonTable_get_stats (snd entry)) (table s))
     \<and> (\<forall>k. filter (\<lambda>d. stats_total_points d = k)
               (map team_stats.truncate (get_season_table s)) =
             filter (\<lambda>d. stats_total_points d = k)
               (map (\<lambda>entry. SeasonTable_get_stats (snd entry)) (table s)))"
proof -
  let ?data = "map (\<lambda>entry. SeasonTable_get_stats (snd entry)) (table s)"
  let ?sorted = "sort_key (\<lambda>x. - stats_total_points x) ?data"
  have wf: "season_wf s"
    unfolding s by (rule season_wf_reachable)
  have ts: "teams s = ts"
    unfolding s by (rule teams_reachable)
  have "length (table s) = card (set (map team_name ts))"
    using season_wf_length [OF wf] by (simp add: ts)
  then have len: "length (table s) = length ts"
    using distinct_card [OF d] by simp
  have len': "length (get_season_table s) = length ts"
    by (simp add: length_get_season_table len)
  have pos: "map position (get_season_table s) = [1..<Suc (length ts)]"
    by (simp add: get_season_table_number_rows position_number_rows len map_Suc_upt
        length_number_rows)
  have srt: "sorted_wrt (\<ge>) (map stats_total_points (get_season_table s))"
    by (simp only: get_season_table_number_rows total_points_number_rows sorted_desc_sort_key)
  have tr: "map team_stats.truncate (get_season_table s) = ?sorted"
    by (simp only: get_season_table_number_rows truncate_number_rows)
  have ms: "mset ?sorted = mset ?data"
    by simp
  have stable: "filter (\<lambda>d. stats_total_points d = k) ?sorted =
      filter (\<lambda>d. stats_total_points d = k) ?data" for k
    using sort_key_stable [of "\<lambda>x. - stats_total_points x" "- k" ?data] by simp
  show ?thesis
    using len' pos srt ms stable by (simp only: tr) simp
qed

theorem C6_table_sorted_and_numbered_witness:
  "distinct (map team_name [example_team_a, example_team_b])
   \<and> length (get_season_table (process_matchdays [1] example_season)) = 2
   \<and> map position (get_season_table (process_matchdays [1] example_season)) = [1, 2]
   \<and> sorted_wrt (\<ge>)
         (map stats_total_points (get_season_table (process_matchdays [1] example_season)))"
proof -
  have s: "process_matchdays [1] example_season =
      process_matchdays [1] (Season_init [example_team_a, example_team_b] ''s'')"
    by (simp add: example_season_def)
  have d: "distinct (map team_name [example_team_a, example_team_b])"
    by (simp add: example_team_names)
  have "[1..<Suc (length [example_team_a, example_team_b])] = [1, 2]"
    by (simp add: upt_rec)
  then show ?thesis
    using C6_table_sorted_and_numbered [OF s d] d by simp
qed

section \<open>The season summary\<close>

lemma py_max_by_Max: "f (py_max_by f x xs) = Max (f ` set (x # xs))"
proof (induction xs arbitrary: x)
  case Nil
  then show ?case by (simp add: py_max_by_def)
next
  case (Cons y ys)
  have step: "py_max_by f x (y # ys) = py_max_by f (if f x < f y then y else x) ys"
    by (simp add: py_max_by_def)
  have "f (py_max_by f x (y # ys)) = Max (f ` set ((if f x < f y then y else x) # ys))"
    by (simp only: step Cons.IH)
  also have "\<dots> = Max (f ` set (x # y # ys))"
  proof (cases "ys = []")
    case True
    then show ?thesis by (auto simp: max_def)
  next
    case False
    then show ?thesis by (auto simp: max_def)
  qed
  finally show ?case .
qed

lemma get_season_table_Nil: "get_season_table s = [] \<longleftrightarrow> table s = []"
  using length_get_season_table [of s] by (metis length_0_conv)

lemma best_score_get_season_table:
  "best_score ` set (get_season_table s) =
     (\<lambda>e. best_score (SeasonTable_get_stats (snd e))) ` set (table s)"
proof -
  have "set (map best_score (get_season_table s)) =
      set (map best_score (map (\<lambda>entry. SeasonTable_get_stats (snd entry)) (table s)))"
    by (simp only: get_season_table_number_rows best_score_number_rows)
      (simp add: image_image)
  then show ?thesis
    by (simp add: image_image)
qed

lemma get_season_summary_Cons:
  assumes "get_season_table s = x # xs"
  shows "\<exists>r. get_season_summary s = Inr r
     \<and> champion r = Some (stats_team x)
     \<and> highest_single_score r = best_score (py_max_by best_score x xs)"
  using assms by (simp add: get_season_summary_def Let_def)

text \<open>
  Claim C10. For a season built by the constructor with at least one team, after any
  \<open>process_matchday\<close> calls, \<open>get_season_summary\<close> returns a summary whose
  \<open>champion\<close> is the \<open>team\<close> of the first row of \<open>get_season_table\<close> and whose
  \<open>highest_single_score\<close> is the greatest \<open>best_score\<close> of all rows, that is of all
  teams' tables. For a season built with no team it raises \<open>ValueError\<close>: \<open>max\<close> is
  applied to the empty table before the guarded fields are read.
\<close>

theorem C10_summary_champion_and_empty_season:
  assumes s: "s = process_matchdays ms (Season_init ts nm)"
  shows "(ts \<noteq> [] \<longrightarrow>
       (\<exists>r x xs.
          get_season_summary s = Inr r
          \<and> get_season_table s = x # xs
          \<and> champion r = Some (stats_team x)
          \<and> highest_single_score r = Max (best_score ` set (get_season_table s))
          \<and> highest_single_score r =
              Max ((\<lambda>e. best_score (SeasonTable_get_stats (snd e))) ` set (table s))
          \<and> (\<forall>t\<in>set ts. \<exists>st.
                dict_get (table s) (team_name t) = Some st
                \<and> best_score (SeasonTable_get_stats st) \<le> highest_single_score r)))
     \<and> (ts = [] \<longrightarrow> get_season_summary s = Inl ValueError)"
proof (intro conjI impI)
  assume ne: "ts \<noteq> []"
  have wf: "season_wf s"
    unfolding s by (rule season_wf_reachable)
  have ts: "teams s = ts"
    unfolding s by (rule teams_reachable)
  have "set (dict_keys (table s)) \<noteq> {}"
    using wf ne by (simp add: season_wf_def ts)
  then have "table s \<noteq> []"
    by (auto simp: dict_keys_def)
  then obtain x xs where tab: "get_season_table s = x # xs"
    using get_season_table_Nil [of s] by (cases "get_season_table s") auto
  from get_season_summary_Cons [OF tab] obtain r where
    r: "get_season_summary s = Inr r" "champion r = Some (stats_team x)"
       "highest_single_score r = best_score (py_max_by best_score x xs)"
    by blast
  have hi: "highest_single_score r = Max (best_score ` set (get_season_table s))"
    by (simp only: r(3) py_max_by_Max tab)
  have hi': "highest_single_score r =
      Max ((\<lambda>e. best_score (SeasonTable_get_stats (snd e))) ` set (table s))"
    by (simp only: hi best_score_get_season_table)
  have each: "\<exists>st. dict_get (table s) (team_name t) = Some st
        \<and> best_score (SeasonTable_get_stats st) \<le> highest_single_score r"
    if t: "t \<in> set ts" for t
  proof -
    have "team_name t \<in> set (dict_keys (table s))"
      using wf t by (simp add: season_wf_def ts)
    then obtain st where st: "dict_get (table s) (team_name t) = Some st"
      using dict_get_None_iff [of "table s" "team_name t"] by auto
    then have "(team_name t, st) \<in> set (table s)"
      by (simp add: dict_get_def map_of_SomeD)
    then have "best_score (SeasonTable_get_stats st) \<in>
        (\<lambda>e. best_score (SeasonTable_get_stats (snd e))) ` set (table s)"
      by force
    then have "best_score (SeasonTable_get_stats st) \<le> highest_single_score r"
      unfolding hi' by (intro Max_ge) simp_all
    with st show ?thesis by blast
  qed
  show "\<exists>r x xs.
          get_season_summary s = Inr r
          \<and> get_season_table s = x # xs
          \<and> champion r = Some (stats_team x)
          \<and> highest_single_score r = Max (best_score ` set (get_season_table s))
          \<and> highest_single_score r =
              Max ((\<lambda>e. best_score (SeasonTable_get_stats (snd e))) ` set (table s))
          \<and> (\<forall>t\<in>set ts. \<exists>st.
                dict_get (table s) (team_name t) = Some st
                \<and> best_score (SeasonTable_get_stats st) \<le> highest_single_score r)"
    using r(1,2) tab hi hi' each by blast
next
  assume e: "ts = []"
  have "dict_keys (table s) = dict_keys (table (Season_init ts nm))"
    unfolding s by (rule process_matchdays_keys)
  then have "table s = []"
    by (simp add: e Season_init_def dict_keys_def)
  then have "get_season_table s = []"
    by (simp add: get_season_table_Nil)
  then show "get_season_summary s = Inl ValueError"
    by (simp add: get_season_summary_def Let_def)
qed

lemma example_table_after_1:
  "table (process_matchdays [1] example_season) =
     [(''A'', \<lparr>team = example_team_a, total_points = 9, matchday_scores = [(1, 9)],
              matchdays_played = 1\<rparr>),
      (''B'', \<lparr>team = example_team_b, total_points = 0, matchday_scores = [(1, 0)],
              matchdays_played = 1\<rparr>)]"
  by (simp add: process_matchdays_def process_matchday_def example_season_fields
      example_team_names example_team_a_score example_team_b_score dict_get_def
      add_matchday_score_def SeasonTable_init_def dict_keys_def dict_values_def py_sum_def)

lemma example_season_table_after_1:
  "map stats_team (get_season_table (process_matchdays [1] example_season)) = [''A'', ''B'']
   \<and> map best_score (get_season_table (process_matchdays [1] example_season)) = [9, 0]"
  by (simp add: get_season_table_number_rows example_table_after_1 SeasonTable_get_stats_def
      example_team_names dict_values_def py_round1_numeral number_rows_Cons number_rows_Nil
      fields_extend py_round1_of_int [of 0, simplified])

theorem C10_summary_champion_and_empty_season_witness:
  "[example_team_a, example_team_b] \<noteq> []
   \<and> (\<exists>r. get_season_summary (process_matchdays [1] example_season) = Inr r
          \<and> champion r = Some ''A'' \<and> highest_single_score r = 9)
   \<and> get_season_summary (process_matchdays [1] (Season_init [] ''e'')) = Inl ValueError"
proof -
  let ?s = "process_matchdays [1] example_season"
  have s: "?s = process_matchdays [1] (Season_init [example_team_a, example_team_b] ''s'')"
    by (simp add: example_season_def)
  from C10_summary_champion_and_empty_season [OF s]
  obtain r x xs where r: "get_season_summary ?s = Inr r" "get_season_table ?s = x # xs"
    "champion r = Some (stats_team x)"
    "highest_single_score r = Max (best_score ` set (get_season_table ?s))"
    by auto
  have "stats_team x = ''A''"
    using example_season_table_after_1 r(2) by simp
  moreover have "Max (best_score ` set (get_season_table ?s)) = 9"
  proof -
    have "best_score ` set (get_season_table ?s) =
        set (map best_score (get_season_table ?s))"
      by simp
    also have "\<dots> = {9, 0}"
      using example_season_table_after_1 by simp
    finally show ?thesis by simp
  qed
  moreover have "get_season_summary (process_matchdays [1] (Season_init [] ''e'')) =
      Inl ValueError"
    using C10_summary_champion_and_empty_season
      [of "process_matchdays [1] (Season_init [] ''e'')" "[1]" "[]" "''e''"]
    by simp
  ultimately show ?thesis
    using r by simp
qed

section \<open>Populating the rosters\<close>

lemma role_of_raw_values:
  "role_of_raw ''P'' = Some GOALKEEPER" "role_of_raw ''D'' = Some DEFENDER"
  "role_of_raw ''C'' = Some MIDFIELDER" "role_of_raw ''A'' = Some FORWARD"
  "role_of_raw ''G'' = Some GOALKEEPER" "role_of_raw ''M'' = Some MIDFIELDER"
  "role_of_raw ''F'' = Some FORWARD"
  by (simp_all add: role_of_raw_def role_mapping_get_def role_mapping_def dict_get_def
      Role_of_value_def)

lemma role_mapping_get_absent:
  "r \<notin> {''P'', ''D'', ''C'', ''A''} \<Longrightarrow> role_mapping_get r = r"
  by (simp add: role_mapping_get_def role_mapping_def dict_get_def)

lemma role_of_raw_None:
  "role_of_raw r = None \<longleftrightarrow> r \<notin> {''P'', ''D'', ''C'', ''A'', ''G'', ''M'', ''F''}"
  by (simp add: role_of_raw_def role_mapping_get_def role_mapping_def dict_get_def
      Role_of_value_def)

lemma Player_init_role:
  "Player_init c (role_mapping_get r) n t =
     (case role_of_raw r of
        None \<Rightarrow> Inl ValueError
      | Some ro \<Rightarrow> Inr \<lparr>cod = c, role = ro, name = n, real_team = t,
               matchday_stats = Map.empty, matchday_fantavoto = Map.empty\<rparr>)"
  by (simp add: Player_init_def role_of_raw_def)

lemma populate_team_error:
  "populate_team pd cs t = Inl e \<longleftrightarrow>
     e = ValueError \<and> (\<exists>d\<in>set (rostered_rows pd cs). role_of_raw (csv_Role d) = None)"
proof (induction cs arbitrary: t)
  case Nil
  then show ?case by simp
next
  case (Cons c cs)
  show ?case
  proof (cases "pd c")
    case None
    then show ?thesis by (simp add: Cons.IH)
  next
    case (Some d)
    show ?thesis
    proof (cases "role_of_raw (csv_Role d)")
      case None
      then show ?thesis using Some by (auto simp: Player_init_role Let_def)
    next
      case (Some ro)
      then show ?thesis using \<open>pd c = Some d\<close>
        by (simp add: Player_init_role Let_def Cons.IH)
    qed
  qed
qed

lemma populate_team_roles:
  "populate_team pd cs t = Inr t' \<Longrightarrow>
   map (\<lambda>p. Some (role p)) (players t') =
     map (\<lambda>p. Some (role p)) (players t) @
     map (\<lambda>d. role_of_raw (csv_Role d)) (rostered_rows pd cs)"
proof (induction cs arbitrary: t)
  case Nil
  then show ?case by simp
next
  case (Cons c cs)
  show ?case
  proof (cases "pd c")
    case None
    then show ?thesis using Cons by simp
  next
    case (Some d)
    show ?thesis
    proof (cases "role_of_raw (csv_Role d)")
      case None
      then show ?thesis using Some Cons.prems by (simp add: Player_init_role Let_def)
    next
      case (Some ro)
      let ?p = "\<lparr>cod = c, role = ro, name = csv_Name d, real_team = csv_Team d,
               matchday_stats = Map.empty, matchday_fantavoto = Map.empty\<rparr>"
      have "populate_team pd cs (add_player ?p t) = Inr t'"
        using Cons.prems Some \<open>pd c = Some d\<close> by (simp add: Player_init_role Let_def)
      from Cons.IH [OF this] show ?thesis
        using Some \<open>pd c = Some d\<close> by (simp add: add_player_def)
    qed
  qed
qed

lemma populate_teams_error:
  "populate_teams_with_players pd ts = Inl e \<longleftrightarrow>
     e = ValueError \<and>
     (\<exists>t\<in>set ts. \<exists>d\<in>set (rostered_rows pd (player_codes t)). role_of_raw (csv_Role d) = None)"
proof (induction ts)
  case Nil
  then show ?case by simp
next
  case (Cons t ts)
  show ?case
  proof (cases "populate_team pd (player_codes t) t")
    case (Inl e')
    then show ?thesis
      using populate_team_error [of pd "player_codes t" t e'] by auto
  next
    case (Inr t')
    then have no: "\<not> (\<exists>d\<in>set (rostered_rows pd (player_codes t)). role_of_raw (csv_Role d) = None)"
      using populate_team_error [of pd "player_codes t" t ValueError] by auto
    show ?thesis
      using Inr no Cons.IH by (cases "populate_teams_with_players pd ts") auto
  qed
qed

lemma populate_teams_roles:
  "populate_teams_with_players pd ts = Inr ts' \<Longrightarrow>
   map (\<lambda>t. map (\<lambda>p. Some (role p)) (players t)) ts' =
     map (\<lambda>t. map (\<lambda>p. Some (role p)) (players t) @
            map (\<lambda>d. role_of_raw (csv_Role d)) (rostered_rows pd (player_codes t))) ts"
proof (induction ts arbitrary: ts')
  case Nil
  then show ?case by simp
next
  case (Cons t ts)
  from Cons.prems obtain t' us where
    t': "populate_team pd (player_codes t) t = Inr t'"
    and us: "populate_teams_with_players pd ts = Inr us"
    and ts': "ts' = t' # us"
    by (auto split: sum.splits)
  show ?case
    using populate_team_roles [OF t'] Cons.IH [OF us] by (simp add: ts')
qed

text \<open>
  Claim C9 as stated fails: the raw role code \<open>G\<close> is not a key of \<open>role_mapping\<close>,
  and a rostered row that carries it gives a goalkeeper, with no error.
\<close>

theorem C9_canonical_letter_accepted_counterexample:
  "dict_get role_mapping ''G'' = None
   \<and> populate_teams_with_players example_raw_data [example_team_a2] =
       Inr [add_player example_goalkeeper example_team_a2]
   \<and> role example_goalkeeper = GOALKEEPER"
  by (simp add: dict_get_def role_mapping_def example_raw_data_def example_team_a2_def
      Team_init_def add_player_def example_goalkeeper_def Player_init_def Role_of_value_def
      role_mapping_get_def)

text \<open>
  Claim C9, amended. A raw role code that is not a key of the table P, D, C, A is handed
  unchanged to the \<open>Role\<close> constructor. \<open>populate_teams_with_players\<close> raises, and then
  \<open>ValueError\<close>, exactly when the row of some rostered code carries a role code that is
  none of P, D, C, A, G, M, F; otherwise every rostered row gives a player whose role is
  the table's image of its code, or the code itself for the canonical letters G, M and F.
\<close>

theorem C9_unmapped_role_code_passes_through:
  "(r \<notin> {''P'', ''D'', ''C'', ''A''} \<longrightarrow> role_mapping_get r = r)
   \<and> (populate_teams_with_players pd ts = Inl e \<longleftrightarrow>
        e = ValueError \<and>
        (\<exists>t\<in>set ts. \<exists>d\<in>set (rostered_rows pd (player_codes t)).
           csv_Role d \<notin> {''P'', ''D'', ''C'', ''A'', ''G'', ''M'', ''F''}))
   \<and> (populate_teams_with_players pd ts = Inr ts' \<longrightarrow>
        map (\<lambda>t. map (\<lambda>p. Some (role p)) (players t)) ts' =
          map (\<lambda>t. map (\<lambda>p. Some (role p)) (players t) @
                 map (\<lambda>d. role_of_raw (csv_Role d)) (rostered_rows pd (player_codes t))) ts)
   \<and> role_of_raw ''P'' = Some GOALKEEPER \<and> role_of_raw ''D'' = Some DEFENDER
   \<and> role_of_raw ''C'' = Some MIDFIELDER \<and> role_of_raw ''A'' = Some FORWARD
   \<and> role_of_raw ''G'' = Some GOALKEEPER \<and> role_of_raw ''M'' = Some MIDFIELDER
   \<and> role_of_raw ''F'' = Some FORWARD"
proof -
  have 1: "r \<notin> {''P'', ''D'', ''C'', ''A''} \<longrightarrow> role_mapping_get r = r"
    using role_mapping_get_absent [of r] by blast
  have 2: "populate_teams_with_players pd ts = Inl e \<longleftrightarrow>
        e = ValueError \<and>
        (\<exists>t\<in>set ts. \<exists>d\<in>set (rostered_rows pd (player_codes t)).
           csv_Role d \<notin> {''P'', ''D'', ''C'', ''A'', ''G'', ''M'', ''F''})"
    by (simp only: populate_teams_error role_of_raw_None)
  have 3: "populate_teams_with_players pd ts = Inr ts' \<longrightarrow>
        map (\<lambda>t. map (\<lambda>p. Some (role p)) (players t)) ts' =
          map (\<lambda>t. map (\<lambda>p. Some (role p)) (players t) @
                 map (\<lambda>d. role_of_raw (csv_Role d)) (rostered_rows pd (player_codes t))) ts"
    using populate_teams_roles [of pd ts ts'] by blast
  show ?thesis
    using 1 2 3 by (simp only: role_of_raw_values)
qed

theorem C9_unmapped_role_code_passes_through_witness:
  "role_mapping_get ''G'' = ''G''
   \<and> populate_teams_with_players example_raw_data [Team_init ''C'' [2, 3]] = Inl ValueError
   \<and> populate_teams_with_players example_raw_data [example_team_a2] =
       Inr [add_player example_goalkeeper example_team_a2]
   \<and> map (map role) (map players [add_player example_goalkeeper example_team_a2]) =
       [[GOALKEEPER]]"
proof -
  have rows: "rostered_rows example_raw_data [2, 3] =
      [the (example_raw_data 2), the (example_raw_data 3)]"
      "rostered_rows example_raw_data [2] = [the (example_raw_data 2)]"
    by (simp_all add: example_raw_data_def)
  have roles: "csv_Role (the (example_raw_data 2)) = ''G''"
    "csv_Role (the (example_raw_data 3)) = ''X''"
    by (simp_all add: example_raw_data_def)
  have codes: "player_codes (Team_init ''C'' [2, 3]) = [2, 3]"
    "player_codes example_team_a2 = [2]"
    by (simp_all add: Team_init_def example_team_a2_def)
  have ok: "populate_teams_with_players example_raw_data [example_team_a2] =
       Inr [add_player example_goalkeeper example_team_a2]"
    by (simp add: example_raw_data_def example_team_a2_def
      Team_init_def add_player_def example_goalkeeper_def Player_init_def Role_of_value_def
      role_mapping_get_def dict_get_def role_mapping_def)
  have pl: "players example_team_a2 = []" "role example_goalkeeper = GOALKEEPER"
    by (simp_all add: example_team_a2_def Team_init_def example_goalkeeper_def)
  show ?thesis
    using C9_unmapped_role_code_passes_through
        [of "''G''" example_raw_data "[Team_init ''C'' [2, 3]]" ValueError "[]"]
      C9_unmapped_role_code_passes_through
        [of "''G''" example_raw_data "[example_team_a2]" ValueError
          "[add_player example_goalkeeper example_team_a2]"]
    by (simp add: rows roles codes ok pl add_player_def
        del: populate_teams_with_players.simps rostered_rows.simps)
qed

section \<open>Standardizing the player lists\<close>

lemma player_key_missing_record:
  "player_key (missing_record \<lparr>tpl_Team = csv_Team row, tpl_Cod = csv_Cod row,
      tpl_Role = csv_Role row, tpl_Name = csv_Name row\<rparr>) = player_key row"
  by (simp add: player_key_def missing_record_def)

lemma templates_ok_Nil: "templates_ok []"
  by (simp add: templates_ok_def)

lemma templates_ok_dict_set:
  "templates_ok all \<Longrightarrow> player_key (missing_record tpl) = k \<Longrightarrow>
   templates_ok (dict_set k tpl all)"
  by (induction all) (auto simp: templates_ok_def)

lemma collect_rows_keys:
  "set (dict_keys (collect_rows df all)) = set (dict_keys all) \<union> set (map player_key df)"
  by (induction df arbitrary: all) (auto simp: set_dict_keys_dict_set)

lemma collect_rows_ok: "templates_ok all \<Longrightarrow> templates_ok (collect_rows df all)"
  by (induction df arbitrary: all)
    (simp_all add: templates_ok_dict_set player_key_missing_record)

lemma key_universe_Nil: "key_universe fs [] = {}"
  by (simp add: key_universe_def)

lemma key_universe_Cons:
  "key_universe fs (f # fl) =
     (case fs f of None \<Rightarrow> {} | Some df \<Rightarrow> set (map player_key df)) \<union> key_universe fs fl"
  by (simp add: key_universe_def)

lemma collect_players_keys:
  "set (dict_keys (collect_players fs fl all)) = set (dict_keys all) \<union> key_universe fs fl"
proof (induction fl arbitrary: all)
  case Nil
  then show ?case by (simp add: key_universe_Nil)
next
  case (Cons f fl)
  show ?case
    by (cases "fs f")
      (auto simp: read_csv_def key_universe_Cons Cons.IH collect_rows_keys)
qed

lemma collect_players_ok: "templates_ok all \<Longrightarrow> templates_ok (collect_players fs fl all)"
proof (induction fl arbitrary: all)
  case Nil
  then show ?case by simp
next
  case (Cons f fl)
  then show ?case
    by (cases "fs f") (simp_all add: read_csv_def collect_rows_ok)
qed

lemma missing_players_keys:
  assumes "templates_ok all"
  shows "set (map player_key (missing_players all ex)) = set (dict_keys all) - ex"
proof -
  have *: "\<forall>item\<in>set all. player_key (missing_record (snd item)) = fst item"
    using assms by (simp add: templates_ok_def list_all_iff)
  have "map player_key (missing_players all ex) = map fst (filter (\<lambda>item. fst item \<notin> ex) all)"
    using * by (simp add: missing_players_def)
  then show ?thesis
    by (auto simp: dict_keys_def)
qed

lemma missing_players_zero:
  "r \<in> set (missing_players all ex) \<Longrightarrow>
   csv_Rating r = 0 \<and> csv_Gf r = 0 \<and> csv_Gs r = 0 \<and> csv_Rp r = 0 \<and> csv_Rs r = 0 \<and>
   csv_Rf r = 0 \<and> csv_Au r = 0 \<and> csv_Amm r = 0 \<and> csv_Esp r = 0 \<and> csv_Ass r = 0"
  by (auto simp: missing_players_def missing_record_def)

lemma standardize_file_mset:
  "mset (standardize_file all df) =
     mset df + mset (missing_players all (set (map player_key df)))"
  by (simp add: standardize_file_def sort_values_def Let_def)

lemma standardize_file_sorted: "sorted (map sort_columns (standardize_file all df))"
  by (simp add: standardize_file_def sort_values_def Let_def sorted_sort_key)

lemma standardize_file_keys:
  assumes "templates_ok all"
  shows "set (map player_key (standardize_file all df)) =
     set (map player_key df) \<union> set (dict_keys all)"
proof -
  have "set (standardize_file all df) =
      set df \<union> set (missing_players all (set (map player_key df)))"
    by (simp add: standardize_file_def sort_values_def Let_def)
  then have "set (map player_key (standardize_file all df)) =
      set (map player_key df) \<union>
      set (map player_key (missing_players all (set (map player_key df))))"
    by (simp add: image_Un)
  then show ?thesis
    by (simp only: missing_players_keys [OF assms]) auto
qed

lemma standardize_file_idem:
  assumes "templates_ok all"
  shows "standardize_file all (standardize_file all df) = standardize_file all df"
proof -
  let ?df = "standardize_file all df"
  have "set (dict_keys all) - set (map player_key ?df) = {}"
    by (simp only: standardize_file_keys [OF assms]) auto
  then have "set (map player_key (missing_players all (set (map player_key ?df)))) = {}"
    by (simp only: missing_players_keys [OF assms])
  then have "missing_players all (set (map player_key ?df)) = []"
    by simp
  then have "standardize_file all ?df = sort_values ?df"
    by (simp add: standardize_file_def [of all ?df] Let_def)
  also have "\<dots> = ?df"
    unfolding sort_values_def
    by (rule sort_key_id_if_sorted) (rule standardize_file_sorted)
  finally show ?thesis .
qed

lemma standardize_files_result:
  assumes ok: "templates_ok all"
  shows "fst (standardize_files all fl fs out) = out @ fl
     \<and> snd (standardize_files all fl fs out) f =
         (if f \<in> set fl then map_option (standardize_file all) (fs f) else fs f)"
proof (induction fl arbitrary: fs out)
  case Nil
  then show ?case by simp
next
  case (Cons g fl)
  show ?case
  proof (cases "fs g")
    case None
    then show ?thesis
      using Cons.IH [of fs "out @ [g]"] by (auto simp: read_csv_def)
  next
    case (Some df)
    let ?fs = "fs(g \<mapsto> standardize_file all df)"
    have run: "standardize_files all (g # fl) fs out = standardize_files all fl ?fs (out @ [g])"
      by (simp add: read_csv_def Some)
    have ih: "fst (standardize_files all fl ?fs (out @ [g])) = (out @ [g]) @ fl"
      "snd (standardize_files all fl ?fs (out @ [g])) f =
         (if f \<in> set fl then map_option (standardize_file all) (?fs f) else ?fs f)"
      by (rule conjunct1 [OF Cons.IH], rule conjunct2 [OF Cons.IH])
    show ?thesis
    proof (cases "f = g")
      case True
      then show ?thesis
        using ih
        by (simp add: run Some standardize_file_idem [OF ok] del: standardize_files.simps)
    next
      case False
      then show ?thesis
        using ih by (simp add: run del: standardize_files.simps)
    qed
  qed
qed

lemma key_universe_readable:
  assumes "set csv_files \<subseteq> dom fs"
  shows "key_universe fs csv_files = (\<Union>f\<in>set csv_files. set (map player_key (the (fs f))))"
proof -
  have "(case fs f of None \<Rightarrow> {} | Some df \<Rightarrow> set (map player_key df)) =
      set (map player_key (the (fs f)))" if "f \<in> set csv_files" for f
    using that assms by (cases "fs f") auto
  then show ?thesis
    by (simp add: key_universe_def)
qed

text \<open>
  Claim C7. After \<open>standardize_player_lists\<close>, every file of the list that can be read
  holds exactly the keys (team, code, role, name) seen in any file of the list: its own rows
  plus one synthesized row for each key it lacked, every synthesized row with all ten
  numeric fields 0, the rating included, and the rows in the order of (team, role, name).
  With players x, y in one matchday and x, z in another, both end with x, y, z.
\<close>

theorem C7_standardized_files_cover_the_universe:
  "fst (standardize_player_lists csv_files fs) = csv_files
   \<and> (set csv_files \<subseteq> dom fs \<longrightarrow>
        key_universe fs csv_files = (\<Union>f\<in>set csv_files. set (map player_key (the (fs f)))))
   \<and> (\<forall>f\<in>set csv_files. \<forall>df. fs f = Some df \<longrightarrow>
        (\<exists>rows synthesized.
           snd (standardize_player_lists csv_files fs) f = Some rows
           \<and> set (map player_key rows) = key_universe fs csv_files
           \<and> sorted (map sort_columns rows)
           \<and> mset rows = mset df + mset synthesized
           \<and> (\<forall>r\<in>set synthesized.
                player_key r \<notin> set (map player_key df)
                \<and> csv_Rating r = 0 \<and> csv_Gf r = 0 \<and> csv_Gs r = 0 \<and> csv_Rp r = 0
                \<and> csv_Rs r = 0 \<and> csv_Rf r = 0 \<and> csv_Au r = 0 \<and> csv_Amm r = 0
                \<and> csv_Esp r = 0 \<and> csv_Ass r = 0)))"
proof (cases "csv_files = []")
  case True
  then show ?thesis by (simp add: standardize_player_lists_def key_universe_Nil)
next
  case False
  let ?all = "collect_players fs csv_files []"
  have ok: "templates_ok ?all"
    by (rule collect_players_ok) (rule templates_ok_Nil)
  have keys: "set (dict_keys ?all) = key_universe fs csv_files"
    using collect_players_keys [of fs csv_files "[]"] by (simp add: dict_keys_def)
  have run: "standardize_player_lists csv_files fs = standardize_files ?all csv_files fs []"
    using False by (simp add: standardize_player_lists_def Let_def)
  have res: "fst (standardize_files ?all csv_files fs []) = csv_files"
    "\<And>f. snd (standardize_files ?all csv_files fs []) f =
         (if f \<in> set csv_files then map_option (standardize_file ?all) (fs f) else fs f)"
    using standardize_files_result [OF ok, of csv_files fs "[]"] by simp_all
  have each: "\<exists>rows synthesized.
           snd (standardize_player_lists csv_files fs) f = Some rows
           \<and> set (map player_key rows) = key_universe fs csv_files
           \<and> sorted (map sort_columns rows)
           \<and> mset rows = mset df + mset synthesized
           \<and> (\<forall>r\<in>set synthesized.
                player_key r \<notin> set (map player_key df)
                \<and> csv_Rating r = 0 \<and> csv_Gf r = 0 \<and> csv_Gs r = 0 \<and> csv_Rp r = 0
                \<and> csv_Rs r = 0 \<and> csv_Rf r = 0 \<and> csv_Au r = 0 \<and> csv_Amm r = 0
                \<and> csv_Esp r = 0 \<and> csv_Ass r = 0)"
    if f: "f \<in> set csv_files" and df: "fs f = Some df" for f df
  proof -
    let ?rows = "standardize_file ?all df"
    let ?syn = "missing_players ?all (set (map player_key df))"
    have 1: "snd (standardize_player_lists csv_files fs) f = Some ?rows"
      using f df by (simp add: run res)
    have sub: "set (map player_key df) \<subseteq> key_universe fs csv_files"
      using f df by (force simp: key_universe_def)
    have 2: "set (map player_key ?rows) = key_universe fs csv_files"
      using sub by (simp only: standardize_file_keys [OF ok] keys) auto
    have 3: "sorted (map sort_columns ?rows)"
      by (rule standardize_file_sorted)
    have 4: "mset ?rows = mset df + mset ?syn"
      by (rule standardize_file_mset)
    have 5: "player_key r \<notin> set (map player_key df)" if "r \<in> set ?syn" for r
    proof -
      from that have "player_key r \<in> set (map player_key ?syn)" by simp
      then show ?thesis
        by (simp only: missing_players_keys [OF ok]) simp
    qed
    have 6: "\<forall>r\<in>set ?syn.
                player_key r \<notin> set (map player_key df)
                \<and> csv_Rating r = 0 \<and> csv_Gf r = 0 \<and> csv_Gs r = 0 \<and> csv_Rp r = 0
                \<and> csv_Rs r = 0 \<and> csv_Rf r = 0 \<and> csv_Au r = 0 \<and> csv_Amm r = 0
                \<and> csv_Esp r = 0 \<and> csv_Ass r = 0"
      using 5 missing_players_zero [of _ ?all "set (map player_key df)"] by blast
    show ?thesis
      using 1 2 3 4 6 by blast
  qed
  show ?thesis
  proof (intro conjI ballI allI impI)
    show "fst (standardize_player_lists csv_files fs) = csv_files"
      by (simp add: run res(1))
  next
    assume "set csv_files \<subseteq> dom fs"
    then show "key_universe fs csv_files =
        (\<Union>f\<in>set csv_files. set (map player_key (the (fs f))))"
      by (rule key_universe_readable)
  next
    fix f df
    assume "f \<in> set csv_files" and "fs f = Some df"
    then show "\<exists>rows synthesized.
           snd (standardize_player_lists csv_files fs) f = Some rows
           \<and> set (map player_key rows) = key_universe fs csv_files
           \<and> sorted (map sort_columns rows)
           \<and> mset rows = mset df + mset synthesized
           \<and> (\<forall>r\<in>set synthesized.
                player_key r \<notin> set (map player_key df)
                \<and> csv_Rating r = 0 \<and> csv_Gf r = 0 \<and> csv_Gs r = 0 \<and> csv_Rp r = 0
                \<and> csv_Rs r = 0 \<and> csv_Rf r = 0 \<and> csv_Au r = 0 \<and> csv_Amm r = 0
                \<and> csv_Esp r = 0 \<and> csv_Ass r = 0)"
      by (rule each)
  qed
qed

theorem C7_standardized_files_cover_the_universe_witness:
  "(\<exists>rows. snd (standardize_player_lists [''matchday1.csv'', ''matchday2.csv''] example_files)
             ''matchday1.csv'' = Some rows
          \<and> set (map player_key rows) =
              {(''T'', 1, ''A'', ''x''), (''T'', 2, ''P'', ''y''), (''U'', 3, ''D'', ''z'')})
   \<and> (\<exists>rows. snd (standardize_player_lists [''matchday1.csv'', ''matchday2.csv''] example_files)
             ''matchday2.csv'' = Some rows
          \<and> set (map player_key rows) =
              {(''T'', 1, ''A'', ''x''), (''T'', 2, ''P'', ''y''), (''U'', 3, ''D'', ''z'')})"
proof -
  let ?files = "[''matchday1.csv'', ''matchday2.csv'']"
  have f1: "example_files ''matchday1.csv'' =
      Some [played_row ''T'' 1 ''A'' ''x'' 7, played_row ''T'' 2 ''P'' ''y'' 6]"
    and f2: "example_files ''matchday2.csv'' =
      Some [played_row ''U'' 3 ''D'' ''z'' 6, played_row ''T'' 1 ''A'' ''x'' 5]"
    by (simp_all add: example_files_def)
  have u: "key_universe example_files ?files =
      {(''T'', 1, ''A'', ''x''), (''T'', 2, ''P'', ''y''), (''U'', 3, ''D'', ''z'')}"
    by (auto simp: key_universe_def f1 f2 player_key_def played_row_def)
  have m: "''matchday1.csv'' \<in> set ?files" "''matchday2.csv'' \<in> set ?files"
    by simp_all
  note th = C7_standardized_files_cover_the_universe
    [of ?files example_files, THEN conjunct2, THEN conjunct2, rule_format]
  from th [OF m(1) f1] obtain rows1 where
    "snd (standardize_player_lists ?files example_files) ''matchday1.csv'' = Some rows1"
    "set (map player_key rows1) = key_universe example_files ?files"
    by (elim exE conjE)
  moreover from th [OF m(2) f2] obtain rows2 where
    "snd (standardize_player_lists ?files example_files) ''matchday2.csv'' = Some rows2"
    "set (map player_key rows2) = key_universe example_files ?files"
    by (elim exE conjE)
  ultimately show ?thesis
    by (simp only: u) blast
qed

end
